theory Spec2Isabelle
  imports Main "HOL-Library.AList" "HOL-Library.Monad_Syntax"
begin

section \<open>Bytes, number formatting and header maps\<close>

text \<open>
  Byte slices and Go strings are both \<open>string\<close> (a list of bytes). A function of the
  model returns \<open>None\<close> exactly where the Go code dereferences a nil pointer (a runtime
  panic); Go \<open>error\<close> results are values of the datatype \<open>error\<close>.
\<close>

datatype error = errHijacked | errIO | errEOF | errReadRequest | errRead

definition CRLF :: string where
  "CRLF = [CHR 0x0D, CHR 0x0A]"

definition digit_char :: "nat \<Rightarrow> char" where
  "digit_char d = ''0123456789abcdef'' ! d"

function fmt_digits :: "nat \<Rightarrow> nat \<Rightarrow> string" where
  "fmt_digits b n =
     (if n < b \<or> b < 2 then [digit_char n]
      else fmt_digits b (n div b) @ [digit_char (n mod b)])"
  by pat_completeness auto
termination
  by (relation "measure snd") auto

text \<open>
  \<open>strconv.FormatInt(i, base)\<close>. The writer passes the bases 10 and 16 only (Go panics
  on a base below 2 or above 36).
\<close>

definition FormatInt :: "int \<Rightarrow> nat \<Rightarrow> string" where
  "FormatInt i b =
     (if i < 0 then CHR ''-'' # fmt_digits b (nat (- i)) else fmt_digits b (nat i))"

definition Itoa :: "int \<Rightarrow> string" where
  "Itoa i = FormatInt i 10"

text \<open>
  \<open>http.Header\<close> is \<open>map[string][]string\<close>. The association list fixes one of the
  iteration orders the Go map may take. \<open>Get\<close>, \<open>Set\<close> and \<open>Del\<close> canonicalise
  their key; every key the writer passes (\<open>Date\<close>, \<open>Content-Type\<close>,
  \<open>Content-Length\<close>, \<open>Transfer-Encoding\<close>) is canonical already.
\<close>

type_synonym Header = "(string \<times> string list) list"

definition Header_Get :: "Header \<Rightarrow> string \<Rightarrow> string" where
  "Header_Get h k = (case map_of h k of Some (v # vs) \<Rightarrow> v | _ \<Rightarrow> [])"

definition Header_Set :: "Header \<Rightarrow> string \<Rightarrow> string \<Rightarrow> Header" where
  "Header_Set h k v = AList.update k [v] h"

definition Header_Del :: "Header \<Rightarrow> string \<Rightarrow> Header" where
  "Header_Del h k = AList.delete k h"

definition has_key :: "Header \<Rightarrow> string \<Rightarrow> bool" where
  "has_key h k = (map_of h k \<noteq> None)"

section \<open>External collaborators\<close>

text \<open>
  The clock and the two \<open>net/http\<close> helpers the writer calls are parameters:
  \<open>now\<close> is \<open>time.Now().UTC().Format(http.TimeFormat)\<close>.
\<close>

record Env =
  now :: string
  DetectContentType :: "string \<Rightarrow> string"
  StatusText :: "int \<Rightarrow> string"

text \<open>
  The transport's \<open>netpoll.Writer\<close>: bytes written are pending until \<open>Flush\<close> moves
  them onto the wire. Whether a write or a flush fails is a property of the transport.
\<close>

record Writer =
  pending :: string
  wire :: string
  write_fails :: bool
  flush_fails :: bool

definition WriteBinary :: "string \<Rightarrow> Writer \<Rightarrow> error option \<times> Writer" where
  "WriteBinary p w =
     (if write_fails w then (Some errIO, w) else (None, w\<lparr>pending := pending w @ p\<rparr>))"

definition WriteString :: "string \<Rightarrow> Writer \<Rightarrow> error option \<times> Writer" where
  "WriteString s w =
     (if write_fails w then (Some errIO, w) else (None, w\<lparr>pending := pending w @ s\<rparr>))"

definition Writer_Flush :: "Writer \<Rightarrow> error option \<times> Writer" where
  "Writer_Flush w =
     (if flush_fails w then (Some errIO, w)
      else (None, w\<lparr>wire := wire w @ pending w, pending := []\<rparr>))"

text \<open>Everything the writer has been given so far, flushed or not.\<close>

definition written :: "Writer \<Rightarrow> string" where
  "written w = wire w @ pending w"

record ByteBuffer =
  buf_id :: nat
  B :: string

text \<open>
  Modelled from the spec: the byte-buffer pool (\<open>pkg/bytebufferpool\<close> is not among the
  sources). It recycles growable byte buffers: \<open>Get\<close> hands out a checked-in buffer, or
  a new one, empty; \<open>Put\<close> checks a buffer in. \<open>free\<close> lists the handles checked in,
  so a buffer put twice is listed twice and will be handed out twice. \<open>Put\<close> of a nil
  buffer is taken to panic, as a dereference does.
\<close>

record ByteBufferPool =
  free :: "nat list"
  next_id :: nat

definition bytebufferpool_Get :: "ByteBufferPool \<Rightarrow> ByteBuffer \<times> ByteBufferPool" where
  "bytebufferpool_Get bp =
     (case free bp of
        [] \<Rightarrow> (\<lparr>buf_id = next_id bp, B = []\<rparr>, bp\<lparr>next_id := Suc (next_id bp)\<rparr>)
      | i # rest \<Rightarrow> (\<lparr>buf_id = i, B = []\<rparr>, bp\<lparr>free := rest\<rparr>))"

definition bytebufferpool_Put :: "ByteBuffer \<Rightarrow> ByteBufferPool \<Rightarrow> ByteBufferPool" where
  "bytebufferpool_Put b bp = bp\<lparr>free := buf_id b # free bp\<rparr>"

section \<open>Request context and request\<close>

record RequestContext =
  conn :: "nat option"
  parent :: "nat option"
  reader :: "nat option"

record Request =
  Proto :: string
  Close :: bool
  Header :: Header
  Body :: "string option"

section \<open>The response writer\<close>

record ResponseWriter =
  ctx :: "RequestContext option"
  req :: "Request option"
  header :: Header
  statusCode :: int
  wroteHeader :: bool
  hijacked :: bool
  chunked :: bool
  body :: "ByteBuffer option"

text \<open>
  The pool of writers (\<open>rwPool\<close>, a \<open>sync.Pool\<close>) is the list of the writers put back;
  \<open>Get\<close> takes one of them, or makes a new one, with an empty header map, when there is
  none.
\<close>

definition rwPool_New :: ResponseWriter where
  "rwPool_New = \<lparr>ctx = None, req = None, header = [], statusCode = 0, wroteHeader = False,
     hijacked = False, chunked = False, body = None\<rparr>"

definition rwPool_Get :: "ResponseWriter list \<Rightarrow> ResponseWriter \<times> ResponseWriter list" where
  "rwPool_Get rp = (case rp of [] \<Rightarrow> (rwPool_New, []) | x # xs \<Rightarrow> (x, xs))"

definition NewResponseWriter ::
  "RequestContext \<Rightarrow> Request \<Rightarrow> ByteBufferPool \<Rightarrow> ResponseWriter list \<Rightarrow>
     ResponseWriter \<times> ByteBufferPool \<times> ResponseWriter list" where
  "NewResponseWriter c r bp rp =
     (let (rw, rp') = rwPool_Get rp;
          (b, bp') = bytebufferpool_Get bp
      in (rw\<lparr>ctx := Some c, req := Some r, statusCode := 0, wroteHeader := False,
            hijacked := False, chunked := False, body := Some b\<rparr>, bp', rp'))"

definition Release ::
  "ResponseWriter \<Rightarrow> ByteBufferPool \<Rightarrow> ResponseWriter list \<Rightarrow>
     ResponseWriter \<times> ByteBufferPool \<times> ResponseWriter list" where
  "Release rw bp rp =
     (let rw1 = rw\<lparr>ctx := None, req := None\<rparr>;
          (rw2, bp2) = (case body rw1 of
                          Some b \<Rightarrow> (rw1\<lparr>body := None\<rparr>, bytebufferpool_Put b bp)
                        | None \<Rightarrow> (rw1, bp));
          rw3 = rw2\<lparr>header := []\<rparr>
      in (rw3, bp2, rw3 # rp))"

definition WriteHeader :: "int \<Rightarrow> ResponseWriter \<Rightarrow> ResponseWriter" where
  "WriteHeader sc rw = (if wroteHeader rw \<or> hijacked rw then rw else rw\<lparr>statusCode := sc\<rparr>)"

text \<open>The recurring \<open>if rw.statusCode == 0 { rw.statusCode = http.StatusOK }\<close>.\<close>

definition default_status :: "ResponseWriter \<Rightarrow> ResponseWriter" where
  "default_status rw = (if statusCode rw = 0 then rw\<lparr>statusCode := 200\<rparr> else rw)"

definition Write ::
  "string \<Rightarrow> ResponseWriter \<Rightarrow> ((nat \<times> error option) \<times> ResponseWriter) option" where
  "Write p rw =
     (if hijacked rw then Some ((0, Some errHijacked), rw)
      else
        let rw1 = (if \<not> wroteHeader rw then default_status rw else rw)
        in (case body rw1 of
              None \<Rightarrow> None
            | Some b \<Rightarrow> Some ((length p, None), rw1\<lparr>body := Some (b\<lparr>B := B b @ p\<rparr>)\<rparr>)))"

definition noBody :: "int \<Rightarrow> bool" where
  "noBody sc = (100 \<le> sc \<and> sc < 200 \<or> sc = 204 \<or> sc = 304)"

definition ensure_date :: "Env \<Rightarrow> Header \<Rightarrow> Header" where
  "ensure_date env h =
     (if Header_Get h ''Date'' = [] then Header_Set h ''Date'' (now env) else h)"

definition sniff_content_type :: "Env \<Rightarrow> ByteBuffer option \<Rightarrow> Header \<Rightarrow> Header option" where
  "sniff_content_type env bo h =
     (if Header_Get h ''Content-Type'' = [] then
        (case bo of
           None \<Rightarrow> None
         | Some b \<Rightarrow>
             Some (if 0 < length (B b)
                   then Header_Set h ''Content-Type'' (DetectContentType env (take 512 (B b)))
                   else h))
      else Some h)"

definition status_line :: "Env \<Rightarrow> Request \<Rightarrow> int \<Rightarrow> string" where
  "status_line env r sc = Proto r @ '' '' @ Itoa sc @ '' '' @ StatusText env sc @ CRLF"

text \<open>The \<open>else\<close> branch of the framing decision: fixed length, or no body.\<close>

definition fixed_length_headers :: "int \<Rightarrow> ByteBuffer option \<Rightarrow> Header \<Rightarrow> Header option" where
  "fixed_length_headers sc bo h =
     (if Header_Get h ''Content-Length'' = [] \<and> \<not> noBody sc then
        (case bo of
           None \<Rightarrow> None
         | Some b \<Rightarrow>
             Some (Header_Del (Header_Set h ''Content-Length'' (Itoa (int (length (B b)))))
                     ''Transfer-Encoding''))
      else Some (Header_Del h ''Transfer-Encoding''))"

definition header_lines :: "Header \<Rightarrow> string" where
  "header_lines h = concat (map (\<lambda>(k, v). concat (map (\<lambda>vv. k @ '': '' @ vv @ CRLF) v)) h)"

definition writeHeaders ::
  "Env \<Rightarrow> bool \<Rightarrow> ResponseWriter \<Rightarrow> Writer \<Rightarrow> (ResponseWriter \<times> Writer) option" where
  "writeHeaders env isStreaming rw w =
     (if wroteHeader rw then Some (rw, w)
      else do {
        h1 \<leftarrow> sniff_content_type env (body rw) (ensure_date env (header rw));
        r \<leftarrow> req rw;
        let streaming = (isStreaming \<and> \<not> noBody (statusCode rw));
        h2 \<leftarrow> (if streaming
               then Some (Header_Del (Header_Del h1 ''Content-Length'') ''Transfer-Encoding'')
               else fixed_length_headers (statusCode rw) (body rw) h1);
        let buf = status_line env r (statusCode rw)
                  @ (if streaming then ''Transfer-Encoding: chunked'' @ CRLF else [])
                  @ header_lines h2 @ CRLF;
        Some (rw\<lparr>wroteHeader := True, header := h2,
                 chunked := (if streaming then True else chunked rw)\<rparr>,
              snd (WriteBinary buf w))
      })"

definition chunk_frame :: "string \<Rightarrow> string" where
  "chunk_frame d = FormatInt (int (length d)) 16 @ CRLF @ d @ CRLF"

text \<open>The three writes of one chunk; their results are ignored in the source.\<close>

definition write_chunk :: "string \<Rightarrow> Writer \<Rightarrow> Writer" where
  "write_chunk d w =
     snd (WriteString CRLF
       (snd (WriteBinary d
         (snd (WriteString (FormatInt (int (length d)) 16 @ CRLF) w)))))"

definition Flush :: "Env \<Rightarrow> ResponseWriter \<Rightarrow> Writer \<Rightarrow> (ResponseWriter \<times> Writer) option" where
  "Flush env rw w =
     (if hijacked rw then Some (rw, w)
      else do {
        c \<leftarrow> ctx rw;
        _ \<leftarrow> conn c;
        (rw1, w1) \<leftarrow> (if \<not> wroteHeader rw then writeHeaders env True (default_status rw) w
                      else Some (rw, w));
        b \<leftarrow> body rw1;
        let (rw2, w2) = (if 0 < length (B b)
                         then (rw1\<lparr>body := Some (b\<lparr>B := []\<rparr>)\<rparr>, write_chunk (B b) w1)
                         else (rw1, w1));
        Some (rw2, snd (Writer_Flush w2))
      })"

definition Hijack :: "ResponseWriter \<Rightarrow> ((nat option \<times> error option) \<times> ResponseWriter) option" where
  "Hijack rw =
     (if hijacked rw then Some ((None, Some errHijacked), rw)
      else (case ctx rw of
              None \<Rightarrow> None
            | Some c \<Rightarrow> Some ((conn c, None), rw\<lparr>hijacked := True\<rparr>)))"

definition Hijacked :: "ResponseWriter \<Rightarrow> bool" where
  "Hijacked rw = hijacked rw"

text \<open>The common tail of \<open>EndResponse\<close>: check the buffer in, clear the reference, flush.\<close>

definition end_flush ::
  "ResponseWriter \<Rightarrow> ByteBuffer \<Rightarrow> Writer \<Rightarrow> ByteBufferPool \<Rightarrow>
     error option \<times> ResponseWriter \<times> Writer \<times> ByteBufferPool" where
  "end_flush rw b w bp =
     (fst (Writer_Flush w), rw\<lparr>body := None\<rparr>, snd (Writer_Flush w), bytebufferpool_Put b bp)"

definition EndResponse ::
  "Env \<Rightarrow> ResponseWriter \<Rightarrow> Writer \<Rightarrow> ByteBufferPool \<Rightarrow>
     (error option \<times> ResponseWriter \<times> Writer \<times> ByteBufferPool) option" where
  "EndResponse env rw w bp =
     (if hijacked rw then do {
        b \<leftarrow> body rw;
        Some (None, rw, w, bytebufferpool_Put b bp)
      }
      else do {
        c \<leftarrow> ctx rw;
        _ \<leftarrow> conn c;
        let isStreaming = (Header_Get (header rw) ''Transfer-Encoding'' = ''chunked'');
        (rw1, w1) \<leftarrow> (if \<not> wroteHeader rw
                      then writeHeaders env isStreaming (default_status rw) w
                      else Some (rw, w));
        b \<leftarrow> body rw1;
        let nb = noBody (statusCode rw1);
        if chunked rw1 then
          let w2 = (if \<not> nb \<and> 0 < length (B b) then write_chunk (B b) w1 else w1);
              w3 = snd (WriteString (''0'' @ CRLF @ CRLF) w2)
          in Some (end_flush rw1 b w3 bp)
        else if \<not> nb \<and> 0 < length (B b) then
          (case WriteBinary (B b) w1 of
             (Some e, w2) \<Rightarrow> Some (Some e, rw1, w2, bytebufferpool_Put b bp)
           | (None, w2) \<Rightarrow> Some (end_flush rw1 b w2 bp))
        else Some (end_flush rw1 b w1 bp)
      })"

section \<open>Streaming from a reader\<close>

text \<open>
  An \<open>io.Reader\<close> is the list of the results of its \<open>Read\<close> calls, each the block
  read and the error returned with it; once the list is used up \<open>Read\<close> returns
  \<open>(0, io.EOF)\<close>.
\<close>

type_synonym Reader = "(string \<times> error option) list"

text \<open>
  The chunking loop of \<open>ReadFrom\<close>. The flag is true when the loop left through
  \<open>return n, err\<close> (a failed flush) rather than \<open>break\<close>.
\<close>

fun chunk_loop :: "Reader \<Rightarrow> Writer \<Rightarrow> (bool \<times> error option) \<times> Writer" where
  "chunk_loop [] w = ((False, None), w)"
| "chunk_loop ((d, er) # rs) w =
     (let (fe, w1) = (if 0 < length d then Writer_Flush (write_chunk d w) else (None, w))
      in if fe \<noteq> None then ((True, fe), w1)
         else (case er of
                 Some e \<Rightarrow> ((False, if e = errEOF then None else Some e), w1)
               | None \<Rightarrow> chunk_loop rs w1))"

text \<open>\<open>netpollWriterWrapper.Write\<close>: write, then flush at once.\<close>

definition wrapper_Write :: "string \<Rightarrow> Writer \<Rightarrow> (nat \<times> error option) \<times> Writer" where
  "wrapper_Write p w =
     (case WriteBinary p w of
        (Some e, w1) \<Rightarrow> ((0, Some e), w1)
      | (None, w1) \<Rightarrow> ((length p, fst (Writer_Flush w1)), snd (Writer_Flush w1)))"

text \<open>
  \<open>io.CopyBuffer\<close> into the wrapper: the generic read/write loop, the third argument
  being the count written so far. (\<open>netpoll\<close>'s writer is no \<open>io.ReaderFrom\<close>, as the
  source notes, so the fallback branch is the one taken.)
\<close>

fun CopyBuffer :: "Reader \<Rightarrow> Writer \<Rightarrow> nat \<Rightarrow> (nat \<times> error option) \<times> Writer" where
  "CopyBuffer [] w n = ((n, None), w)"
| "CopyBuffer ((d, er) # rs) w n =
     (let ((nw, ew), w1) = (if 0 < length d then wrapper_Write d w else ((0, None), w))
      in if ew \<noteq> None then ((n + nw, ew), w1)
         else (case er of
                 Some e \<Rightarrow> ((n + nw, if e = errEOF then None else Some e), w1)
               | None \<Rightarrow> CopyBuffer rs w1 (n + nw)))"

text \<open>\<open>ReadFrom\<close> once the headers are out. The chunked path never assigns \<open>n\<close>.\<close>

definition ReadFrom_body ::
  "Reader \<Rightarrow> ResponseWriter \<Rightarrow> Writer \<Rightarrow> (nat \<times> error option) \<times> ResponseWriter \<times> Writer" where
  "ReadFrom_body r rw w =
     (if chunked rw then
        (case chunk_loop r w of
           ((True, e), w1) \<Rightarrow> ((0, e), rw, w1)
         | ((False, e), w1) \<Rightarrow>
             (let (fErr, w2) = Writer_Flush w1
              in ((0, if fErr \<noteq> None \<and> e = None then fErr else e), rw, w2)))
      else (let (res, w1) = CopyBuffer r w 0 in (res, rw, w1)))"

definition ReadFrom ::
  "Env \<Rightarrow> Reader \<Rightarrow> ResponseWriter \<Rightarrow> Writer \<Rightarrow>
     ((nat \<times> error option) \<times> ResponseWriter \<times> Writer) option" where
  "ReadFrom env r rw w =
     (if hijacked rw then Some ((0, Some errHijacked), rw, w)
      else do {
        c \<leftarrow> ctx rw;
        _ \<leftarrow> conn c;
        if \<not> wroteHeader rw then do {
          let rw0 = default_status rw;
          let hasCL = has_key (header rw0) ''Content-Length'';
          let hasChunked = (Header_Get (header rw0) ''Transfer-Encoding'' = ''chunked'');
          let shouldChunk = (if hasChunked then True else (\<not> hasCL \<and> \<not> hasChunked));
          (rw1, w1) \<leftarrow> writeHeaders env shouldChunk rw0 w;
          (case Writer_Flush w1 of
             (Some e, w2) \<Rightarrow> Some ((0, Some e), rw1, w2)
           | (None, w2) \<Rightarrow> Some (ReadFrom_body r rw1 w2))
        }
        else Some (ReadFrom_body r rw w)
      })"


section \<open>The handler\<close>

text \<open>
  The external handler is what it does to the writer: the calls it makes, in order, and
  whether it then ends in a panic. Header operations go through \<open>rw.Header()\<close>, with
  keys in canonical form.
\<close>

datatype op =
    OpSetHeader string string
  | OpDelHeader string
  | OpWriteHeader int
  | OpWrite string
  | OpReadFrom Reader
  | OpFlush
  | OpHijack

record Handler =
  ops :: "op list"
  panics :: bool

fun run_op :: "Env \<Rightarrow> op \<Rightarrow> ResponseWriter \<Rightarrow> Writer \<Rightarrow> (ResponseWriter \<times> Writer) option" where
  "run_op env (OpSetHeader k v) rw w = Some (rw\<lparr>header := Header_Set (header rw) k v\<rparr>, w)"
| "run_op env (OpDelHeader k) rw w = Some (rw\<lparr>header := Header_Del (header rw) k\<rparr>, w)"
| "run_op env (OpWriteHeader sc) rw w = Some (WriteHeader sc rw, w)"
| "run_op env (OpWrite p) rw w = map_option (\<lambda>(res, rw'). (rw', w)) (Write p rw)"
| "run_op env (OpReadFrom r) rw w = map_option snd (ReadFrom env r rw w)"
| "run_op env OpFlush rw w = Flush env rw w"
| "run_op env OpHijack rw w = map_option (\<lambda>(res, rw'). (rw', w)) (Hijack rw)"

fun ServeHTTP ::
  "Env \<Rightarrow> op list \<Rightarrow> ResponseWriter \<Rightarrow> Writer \<Rightarrow> (ResponseWriter \<times> Writer) option" where
  "ServeHTTP env [] rw w = Some (rw, w)"
| "ServeHTTP env (x # xs) rw w =
     (case run_op env x rw w of None \<Rightarrow> None | Some (rw', w') \<Rightarrow> ServeHTTP env xs rw' w')"


section \<open>The connection loop\<close>

definition NewRequestContext ::
  "nat \<Rightarrow> nat \<Rightarrow> RequestContext list \<Rightarrow> RequestContext \<times> RequestContext list" where
  "NewRequestContext cn px cp =
     (let (c, cp') = (case cp of
                        [] \<Rightarrow> (\<lparr>conn = None, parent = None, reader = None\<rparr>, [])
                      | x # xs \<Rightarrow> (x, xs))
      in (c\<lparr>conn := Some cn, parent := Some px\<rparr>, cp'))"

definition RequestContext_Release :: "RequestContext \<Rightarrow> RequestContext list \<Rightarrow> RequestContext list" where
  "RequestContext_Release c cp = c\<lparr>conn := None, parent := None\<rparr> # cp"

text \<open>\<open>GetReader\<close>: the reader is created on, or reset to, the current connection.\<close>

definition GetReader :: "RequestContext \<Rightarrow> RequestContext" where
  "GetReader c = c\<lparr>reader := conn c\<rparr>"

text \<open>
  What arrives on the transport, request by request, as the external parser
  (\<open>http.ReadRequest\<close>) delivers it: a request together with what the handler does for
  it, then the rest; the stream ends at end of input or at malformed input. Draining the
  unread body is what puts the parser at the start of the next request; it changes
  nothing else of the state.
\<close>

datatype incoming = InEOF | InMalformed | InRequest Request Handler incoming

record World =
  writer :: Writer
  bufpool :: ByteBufferPool
  rwPool :: "ResponseWriter list"
  ctxPool :: "RequestContext list"

text \<open>\<open>GetRequest\<close>, on the parser's outcome for the next request.\<close>

definition GetRequest ::
  "error + Request \<times> Handler \<Rightarrow> RequestContext \<Rightarrow> (error + Request \<times> Handler) \<times> RequestContext" where
  "GetRequest p c =
     (case p of
        Inl e \<Rightarrow> (Inl (if e = errEOF then errEOF else errReadRequest), GetReader c)
      | Inr rh \<Rightarrow> (Inr rh, GetReader c))"

text \<open>
  \<open>handleRequest\<close>. The request timeout only bounds the handler in real time and is left
  out; the deferred \<open>Release\<close> runs on both ways out once the writer exists.
\<close>

definition handleRequest ::
  "Env \<Rightarrow> error + Request \<times> Handler \<Rightarrow> RequestContext \<Rightarrow> World \<Rightarrow>
     ((Request option \<times> bool \<times> error option) \<times> RequestContext \<times> World) option" where
  "handleRequest env p c W =
     (case GetRequest p c of
        (Inl e, c1) \<Rightarrow> Some ((None, False, Some e), c1, W)
      | (Inr (r, h), c1) \<Rightarrow>
          (let (rw, bp1, rp1) = NewResponseWriter c1 r (bufpool W) (rwPool W)
           in do {
             (rw1, w1) \<leftarrow> ServeHTTP env (ops h) rw (writer W);
             let rw2 = (if panics h then WriteHeader 500 rw1 else rw1);
             (err, rw3, w2, bp2) \<leftarrow> EndResponse env rw2 w1 bp1;
             let (rw4, bp3, rp2) = Release rw3 bp2 rp1;
             let W' = W\<lparr>writer := w2, bufpool := bp3, rwPool := rp2\<rparr>;
             Some (case err of
                     Some e \<Rightarrow> ((None, False, Some e), c1, W')
                   | None \<Rightarrow> ((Some r, Hijacked rw3, None), c1, W'))
           }))"

text \<open>
  How the loop ends: it returns (an error or nil), or, after a hijack, it waits for the
  connection-level context to be cancelled and then returns nil.
\<close>

datatype conn_end = Returned "error option" | HijackedWait

text \<open>One pass of the \<open>for\<close> loop of \<open>ServeConn\<close>; \<open>again\<close> is the next pass.\<close>

definition ServeConn_pass ::
  "Env \<Rightarrow> nat \<Rightarrow> nat \<Rightarrow> error + Request \<times> Handler \<Rightarrow> World \<Rightarrow>
     (World \<Rightarrow> (conn_end \<times> World) option) \<Rightarrow> (conn_end \<times> World) option" where
  "ServeConn_pass env cn px p W again =
     (let (c, cp) = NewRequestContext cn px (ctxPool W)
      in do {
        ((ro, hij, err), c1, W1) \<leftarrow> handleRequest env p c (W\<lparr>ctxPool := cp\<rparr>);
        (case err of
           Some e \<Rightarrow> Some (Returned (Some e), W1\<lparr>ctxPool := RequestContext_Release c1 (ctxPool W1)\<rparr>)
         | None \<Rightarrow>
             if hij then Some (HijackedWait, W1)
             else do {
               r \<leftarrow> ro;
               let W2 = W1\<lparr>ctxPool := RequestContext_Release c1 (ctxPool W1)\<rparr>;
               if Close r \<or> Header_Get (Header r) ''Connection'' = ''close''
               then Some (Returned None, W2)
               else again W2
             })
      })"

fun ServeConn :: "Env \<Rightarrow> nat \<Rightarrow> nat \<Rightarrow> incoming \<Rightarrow> World \<Rightarrow> (conn_end \<times> World) option" where
  "ServeConn env cn px InEOF W = ServeConn_pass env cn px (Inl errEOF) W (\<lambda>W'. None)"
| "ServeConn env cn px InMalformed W = ServeConn_pass env cn px (Inl errRead) W (\<lambda>W'. None)"
| "ServeConn env cn px (InRequest r h s) W =
     ServeConn_pass env cn px (Inr (r, h)) W (\<lambda>W'. ServeConn env cn px s W')"

text \<open>
  The states the writer pool can be in: empty at start, then whatever \<open>Release\<close> and
  \<open>NewResponseWriter\<close> make of it, for any writer released (in whatever state its
  request cycle left it) and any request served.
\<close>

inductive reachable_rwPool :: "ResponseWriter list \<Rightarrow> bool" where
  pool_empty: "reachable_rwPool []"
| pool_Release: "reachable_rwPool rp \<Longrightarrow> reachable_rwPool (snd (snd (Release rw bp rp)))"
| pool_New: "reachable_rwPool rp \<Longrightarrow> reachable_rwPool (snd (snd (NewResponseWriter c r bp rp)))"

section \<open>Concrete instances\<close>

text \<open>
  The shape of the repository's writer tests: a writer taken from the pool, the
  handler's calls on it, then \<open>EndResponse\<close>.
\<close>

definition respond ::
  "Env \<Rightarrow> op list \<Rightarrow> ResponseWriter \<Rightarrow> Writer \<Rightarrow> ByteBufferPool \<Rightarrow>
     (error option \<times> ResponseWriter \<times> Writer \<times> ByteBufferPool) option" where
  "respond env xs rw w bp =
     (case ServeHTTP env xs rw w of None \<Rightarrow> None | Some (rw', w') \<Rightarrow> EndResponse env rw' w' bp)"

definition env0 :: Env where
  "env0 = \<lparr>now = ''Fri, 30 Oct 2026 08:00:00 GMT'',
            DetectContentType = (\<lambda>d. ''text/plain; charset=utf-8''),
            StatusText = (\<lambda>sc. if sc = 200 then ''OK'' else if sc = 204 then ''No Content''
                             else if sc = 404 then ''Not Found''
                             else if sc = 500 then ''Internal Server Error'' else [])\<rparr>"

definition ctx0 :: RequestContext where
  "ctx0 = \<lparr>conn = Some 0, parent = Some 0, reader = Some 0\<rparr>"

definition req0 :: Request where
  "req0 = \<lparr>Proto = ''HTTP/1.1'', Close = False, Header = [], Body = None\<rparr>"

definition w0 :: Writer where
  "w0 = \<lparr>pending = [], wire = [], write_fails = False, flush_fails = False\<rparr>"

definition bp0 :: ByteBufferPool where
  "bp0 = \<lparr>free = [], next_id = 0\<rparr>"

definition rw0 :: ResponseWriter where
  "rw0 = fst (NewResponseWriter ctx0 req0 bp0 [])"

definition bp1 :: ByteBufferPool where
  "bp1 = fst (snd (NewResponseWriter ctx0 req0 bp0 []))"

definition W0 :: World where
  "W0 = \<lparr>writer = w0, bufpool = bp0, rwPool = [], ctxPool = []\<rparr>"

text \<open>A writer as a finished request cycle may leave it.\<close>

definition rw_used :: ResponseWriter where
  "rw_used = \<lparr>ctx = Some ctx0, req = Some req0,
     header = [(''Content-Type'', [''text/html'']), (''X-Trace'', [''a'', ''b''])],
     statusCode = 404, wroteHeader = True, hijacked = True, chunked = True,
     body = Some \<lparr>buf_id = 7, B = ''old''\<rparr>\<rparr>"

text \<open>
  A handler that writes two bytes, and the response it gets; a request that asks for the
  connection to be closed; and the state after such responses have gone out on
  transport 0 from \<open>W0\<close>: they are on the wire, the one writer is back in its pool,
  cleared, and the one body buffer is checked in once.
\<close>

definition hello_handler :: Handler where
  "hello_handler = \<lparr>ops = [OpWrite ''hi''], panics = False\<rparr>"

definition hello_response :: string where
  "hello_response =
     ''HTTP/1.1 200 OK'' @ CRLF
     @ ''Date: Fri, 30 Oct 2026 08:00:00 GMT'' @ CRLF
     @ ''Content-Type: text/plain; charset=utf-8'' @ CRLF
     @ ''Content-Length: 2'' @ CRLF
     @ CRLF
     @ ''hi''"

definition req_close :: Request where
  "req_close = \<lparr>Proto = ''HTTP/1.1'', Close = True, Header = [], Body = None\<rparr>"

definition served :: "string \<Rightarrow> RequestContext list \<Rightarrow> World" where
  "served out cp =
     \<lparr>writer = \<lparr>pending = [], wire = out, write_fails = False, flush_fails = False\<rparr>,
      bufpool = \<lparr>free = [0], next_id = 1\<rparr>,
      rwPool = [\<lparr>ctx = None, req = None, header = [], statusCode = 200, wroteHeader = True,
                 hijacked = False, chunked = False, body = None\<rparr>],
      ctxPool = cp\<rparr>"

section \<open>Facts about the transport writer and header maps\<close>

lemma written_WriteBinary: "\<not> write_fails w \<Longrightarrow> written (snd (WriteBinary p w)) = written w @ p"
  by (simp add: WriteBinary_def written_def)

lemma written_WriteString: "\<not> write_fails w \<Longrightarrow> written (snd (WriteString p w)) = written w @ p"
  by (simp add: WriteString_def written_def)

lemma fails_WriteBinary:
  "write_fails (snd (WriteBinary p w)) = write_fails w"
  "flush_fails (snd (WriteBinary p w)) = flush_fails w"
  by (simp_all add: WriteBinary_def)

lemma fails_WriteString:
  "write_fails (snd (WriteString p w)) = write_fails w"
  "flush_fails (snd (WriteString p w)) = flush_fails w"
  by (simp_all add: WriteString_def)

lemma written_Writer_Flush: "written (snd (Writer_Flush w)) = written w"
  by (simp add: Writer_Flush_def written_def)

lemma fails_Writer_Flush:
  "write_fails (snd (Writer_Flush w)) = write_fails w"
  "flush_fails (snd (Writer_Flush w)) = flush_fails w"
  by (simp_all add: Writer_Flush_def)

lemma pending_Writer_Flush: "\<not> flush_fails w \<Longrightarrow> pending (snd (Writer_Flush w)) = []"
  by (simp add: Writer_Flush_def)

lemma written_write_chunk: "\<not> write_fails w \<Longrightarrow> written (write_chunk d w) = written w @ chunk_frame d"
  by (simp add: write_chunk_def chunk_frame_def written_WriteBinary written_WriteString fails_WriteBinary fails_WriteString)

lemma fails_write_chunk:
  "write_fails (write_chunk d w) = write_fails w"
  "flush_fails (write_chunk d w) = flush_fails w"
  by (simp_all add: write_chunk_def fails_WriteBinary fails_WriteString)

lemma map_of_Header_Set: "map_of (Header_Set h k v) k' = (if k' = k then Some [v] else map_of h k')"
  by (simp add: Header_Set_def update_conv')

lemma map_of_Header_Del: "map_of (Header_Del h k) k' = (if k' = k then None else map_of h k')"
  by (simp add: Header_Del_def delete_conv')

lemma has_key_Del: "has_key (Header_Del h k) k' = (k' \<noteq> k \<and> has_key h k')"
  by (simp add: has_key_def map_of_Header_Del)

lemma map_of_ensure_date: "k \<noteq> ''Date'' \<Longrightarrow> map_of (ensure_date env h) k = map_of h k"
  by (simp add: ensure_date_def map_of_Header_Set)

lemma sniff_Some:
  "sniff_content_type env (Some b) h = Some h1 \<Longrightarrow> k \<noteq> ''Content-Type'' \<Longrightarrow> map_of h1 k = map_of h k"
  by (auto simp: sniff_content_type_def map_of_Header_Set split: if_splits)

lemma sniff_total: "\<exists>h1. sniff_content_type env (Some b) h = Some h1"
  by (simp add: sniff_content_type_def)

lemma fixed_total: "\<exists>h2. fixed_length_headers sc (Some b) h = Some h2"
  by (simp add: fixed_length_headers_def)

lemma fixed_props:
  "fixed_length_headers sc (Some b) h = Some h2 \<Longrightarrow>
     \<not> has_key h2 ''Transfer-Encoding'' \<and>
     map_of h2 ''Content-Length'' =
       (if Header_Get h ''Content-Length'' = [] \<and> \<not> noBody sc then Some [Itoa (int (length (B b)))]
        else map_of h ''Content-Length'')"
  by (auto simp: fixed_length_headers_def has_key_Del map_of_Header_Del map_of_Header_Set split: if_splits)

lemma writeHeaders_commit:
  assumes "\<not> wroteHeader rw" "body rw = Some b" "req rw = Some r"
  shows "\<exists>h2. writeHeaders env s rw w =
           Some (rw\<lparr>wroteHeader := True, header := h2,
                    chunked := (if s \<and> \<not> noBody (statusCode rw) then True else chunked rw)\<rparr>,
                 snd (WriteBinary (status_line env r (statusCode rw)
                    @ (if s \<and> \<not> noBody (statusCode rw) then ''Transfer-Encoding: chunked'' @ CRLF else [])
                    @ header_lines h2 @ CRLF) w))
         \<and> \<not> has_key h2 ''Transfer-Encoding''
         \<and> map_of h2 ''Content-Length'' =
             (if s \<and> \<not> noBody (statusCode rw) then None
              else if Header_Get (header rw) ''Content-Length'' = [] \<and> \<not> noBody (statusCode rw)
                   then Some [Itoa (int (length (B b)))]
              else map_of (header rw) ''Content-Length'')"
proof -
  obtain h1 where h1: "sniff_content_type env (Some b) (ensure_date env (header rw)) = Some h1"
    using sniff_total by blast
  have cl: "map_of h1 ''Content-Length'' = map_of (header rw) ''Content-Length''"
    using sniff_Some[OF h1, of "''Content-Length''"] by (simp add: map_of_ensure_date)
  have gcl: "Header_Get h1 ''Content-Length'' = Header_Get (header rw) ''Content-Length''"
    by (simp add: Header_Get_def cl)
  show ?thesis
  proof (cases "s \<and> \<not> noBody (statusCode rw)")
    case True
    then show ?thesis using assms h1
      by (intro exI[of _ "Header_Del (Header_Del h1 ''Content-Length'') ''Transfer-Encoding''"])
         (simp add: writeHeaders_def has_key_Del map_of_Header_Del)
  next
    case False
    obtain h2 where h2: "fixed_length_headers (statusCode rw) (Some b) h1 = Some h2"
      using fixed_total by blast
    from fixed_props[OF h2] False assms h1 h2 gcl cl show ?thesis
      by (intro exI[of _ h2]) (auto simp add: writeHeaders_def)
  qed
qed


lemma default_status_fields:
  "statusCode (default_status rw) = (if statusCode rw = 0 then 200 else statusCode rw)"
  "wroteHeader (default_status rw) = wroteHeader rw"
  "hijacked (default_status rw) = hijacked rw"
  "chunked (default_status rw) = chunked rw"
  "header (default_status rw) = header rw"
  "body (default_status rw) = body rw"
  "req (default_status rw) = req rw"
  "ctx (default_status rw) = ctx rw"
  by (simp_all add: default_status_def)

lemma EndResponse_commit:
  assumes "\<not> hijacked rw" "\<not> wroteHeader rw" "\<not> chunked rw"
    and "ctx rw = Some c" "conn c = Some cn" "body rw = Some b" "req rw = Some r"
    and "\<not> write_fails w"
    and sc: "sc = (if statusCode rw = 0 then 200 else statusCode rw)"
    and st: "st = (Header_Get (header rw) ''Transfer-Encoding'' = ''chunked'' \<and> \<not> noBody sc)"
  shows "\<exists>rw' w'. EndResponse env rw w bp =
            Some (if flush_fails w then Some errIO else None, rw', w', bytebufferpool_Put b bp)
         \<and> statusCode rw' = sc \<and> wroteHeader rw' \<and> chunked rw' = st \<and> body rw' = None
         \<and> \<not> hijacked rw'
         \<and> written w' = written w @ status_line env r sc
              @ (if st then ''Transfer-Encoding: chunked'' @ CRLF else [])
              @ header_lines (header rw') @ CRLF
              @ (if st then (if B b = [] then [] else chunk_frame (B b)) @ ''0'' @ CRLF @ CRLF
                 else if noBody sc then [] else B b)
         \<and> \<not> has_key (header rw') ''Transfer-Encoding''
         \<and> map_of (header rw') ''Content-Length'' =
             (if st then None
              else if Header_Get (header rw) ''Content-Length'' = [] \<and> \<not> noBody sc
                   then Some [Itoa (int (length (B b)))]
              else map_of (header rw) ''Content-Length'')"
proof -
  let ?rw0 = "default_status rw"
  let ?s = "Header_Get (header rw) ''Transfer-Encoding'' = ''chunked''"
  have pre: "\<not> wroteHeader ?rw0" "body ?rw0 = Some b" "req ?rw0 = Some r"
    using assms by (simp_all add: default_status_fields)
  from writeHeaders_commit[OF pre, of env ?s w] obtain h2 where
    wh: "writeHeaders env ?s ?rw0 w =
           Some (?rw0\<lparr>wroteHeader := True, header := h2,
                    chunked := (if ?s \<and> \<not> noBody (statusCode ?rw0) then True else chunked ?rw0)\<rparr>,
                 snd (WriteBinary (status_line env r (statusCode ?rw0)
                    @ (if ?s \<and> \<not> noBody (statusCode ?rw0) then ''Transfer-Encoding: chunked'' @ CRLF else [])
                    @ header_lines h2 @ CRLF) w))"
    and te: "\<not> has_key h2 ''Transfer-Encoding''"
    and cl: "map_of h2 ''Content-Length'' =
             (if ?s \<and> \<not> noBody (statusCode ?rw0) then None
              else if Header_Get (header ?rw0) ''Content-Length'' = [] \<and> \<not> noBody (statusCode ?rw0)
                   then Some [Itoa (int (length (B b)))]
              else map_of (header ?rw0) ''Content-Length'')"
    by blast
  have sc0: "statusCode ?rw0 = sc" by (simp add: sc default_status_fields)
  show ?thesis
    using assms(1-8) wh te cl sc0 st
    by (auto simp add: EndResponse_def end_flush_def default_status_fields
        written_def WriteBinary_def WriteString_def Writer_Flush_def write_chunk_def chunk_frame_def)
qed

lemma rw0_fields:
  "rw0 = \<lparr>ctx = Some ctx0, req = Some req0, header = [], statusCode = 0, wroteHeader = False,
     hijacked = False, chunked = False, body = Some \<lparr>buf_id = 0, B = []\<rparr>\<rparr>"
  by (simp add: rw0_def NewResponseWriter_def rwPool_Get_def rwPool_New_def
      bytebufferpool_Get_def bp0_def)

section \<open>Facts about \<open>WriteHeader\<close> and the writer pool\<close>

lemma WriteHeader_committed: "wroteHeader rw \<or> hijacked rw \<Longrightarrow> WriteHeader sc rw = rw"
  by (simp add: WriteHeader_def)

lemma fold_WriteHeader_other:
  "\<exists>s. fold WriteHeader scs rw = rw\<lparr>statusCode := s\<rparr>"
proof (induction scs rule: rev_induct)
  case Nil
  have "rw = rw\<lparr>statusCode := statusCode rw\<rparr>" by simp
  then show ?case by (intro exI[of _ "statusCode rw"]) simp
next
  case (snoc x xs)
  then obtain s where s: "fold WriteHeader xs rw = rw\<lparr>statusCode := s\<rparr>" by blast
  have step: "fold WriteHeader (xs @ [x]) rw = WriteHeader x (rw\<lparr>statusCode := s\<rparr>)"
    by (simp add: s)
  show ?case
  proof (cases "wroteHeader rw \<or> hijacked rw")
    case True
    then have "WriteHeader x (rw\<lparr>statusCode := s\<rparr>) = rw\<lparr>statusCode := s\<rparr>"
      by (simp add: WriteHeader_def)
    then show ?thesis using step by (intro exI[of _ s]) simp
  next
    case False
    then have "WriteHeader x (rw\<lparr>statusCode := s\<rparr>) = rw\<lparr>statusCode := x\<rparr>"
      by (simp add: WriteHeader_def)
    then show ?thesis using step by (intro exI[of _ x]) simp
  qed
qed

lemma fold_WriteHeader_last:
  assumes "\<not> wroteHeader rw" "\<not> hijacked rw"
  shows "fold WriteHeader (scs @ [sc]) rw = rw\<lparr>statusCode := sc\<rparr>"
proof -
  obtain s where s: "fold WriteHeader scs rw = rw\<lparr>statusCode := s\<rparr>"
    using fold_WriteHeader_other by blast
  have "fold WriteHeader (scs @ [sc]) rw = WriteHeader sc (rw\<lparr>statusCode := s\<rparr>)"
    by (simp add: s)
  also have "\<dots> = rw\<lparr>statusCode := sc\<rparr>"
    using assms by (simp add: WriteHeader_def)
  finally show ?thesis .
qed

lemma rwPool_after_New: "snd (snd (NewResponseWriter c r bp rp)) = tl rp"
  by (cases rp) (simp_all add: NewResponseWriter_def rwPool_Get_def split: prod.splits)

lemma rwPool_after_Release:
  "\<exists>x. snd (snd (Release rw bp rp)) = x # rp \<and> header x = []"
  by (simp add: Release_def Let_def split: option.splits prod.splits)

lemma list_all_tl: "list_all P xs \<Longrightarrow> list_all P (tl xs)"
  by (cases xs) simp_all

lemma pool_clean: "reachable_rwPool rp \<Longrightarrow> list_all (\<lambda>x. header x = []) rp"
proof (induction rule: reachable_rwPool.induct)
  case pool_empty
  then show ?case by simp
next
  case (pool_Release rp rw bp)
  obtain x where "snd (snd (Release rw bp rp)) = x # rp" "header x = []"
    using rwPool_after_Release by blast
  with pool_Release.IH show ?case by simp
next
  case (pool_New rp c r bp)
  then show ?case by (simp add: rwPool_after_New list_all_tl)
qed

section \<open>Streaming with a fixed length\<close>




section \<open>What a request cycle preserves\<close>

lemma writeHeaders_frame:
  "writeHeaders env s rw w = Some (rw', w') \<Longrightarrow>
     ctx rw' = ctx rw \<and> req rw' = req rw \<and> body rw' = body rw \<and> statusCode rw' = statusCode rw
     \<and> hijacked rw' = hijacked rw \<and> wroteHeader rw'
     \<and> write_fails w' = write_fails w \<and> flush_fails w' = flush_fails w"
  by (auto simp: writeHeaders_def Let_def fails_WriteBinary split: if_splits Option.bind_splits)

lemma Writer_Flush_frame:
  "Writer_Flush w = (e, w') \<Longrightarrow> write_fails w' = write_fails w \<and> flush_fails w' = flush_fails w"
  by (auto simp: Writer_Flush_def split: if_splits)

lemma chunk_loop_fails:
  "write_fails (snd (chunk_loop rd w)) = write_fails w \<and> flush_fails (snd (chunk_loop rd w)) = flush_fails w"
proof (induction rd arbitrary: w)
  case Nil
  then show ?case by simp
next
  case (Cons a rd)
  obtain d er where a: "a = (d, er)" by (cases a)
  obtain fe w1 where step: "(if 0 < length d then Writer_Flush (write_chunk d w) else (None, w)) = (fe, w1)"
    by (cases "if 0 < length d then Writer_Flush (write_chunk d w) else (None, w)")
  have w1: "write_fails w1 = write_fails w \<and> flush_fails w1 = flush_fails w"
    using step by (auto simp: fails_write_chunk split: if_splits dest!: Writer_Flush_frame)
  have "snd (chunk_loop (a # rd) w) = w1 \<or> snd (chunk_loop (a # rd) w) = snd (chunk_loop rd w1)"
    using step by (simp add: a split: option.splits)
  then show ?case using w1 Cons[of w1] by auto
qed

lemma wrapper_Write_frame:
  "wrapper_Write d w = (res, w') \<Longrightarrow> write_fails w' = write_fails w \<and> flush_fails w' = flush_fails w"
  by (auto simp: wrapper_Write_def WriteBinary_def Writer_Flush_def split: if_splits)

lemma CopyBuffer_fails:
  "write_fails (snd (CopyBuffer rd w n)) = write_fails w \<and> flush_fails (snd (CopyBuffer rd w n)) = flush_fails w"
proof (induction rd arbitrary: w n)
  case Nil
  then show ?case by simp
next
  case (Cons a rd)
  obtain d er where a: "a = (d, er)" by (cases a)
  obtain nw ew w1 where step: "(if 0 < length d then wrapper_Write d w else ((0, None), w)) = ((nw, ew), w1)"
    by (cases "if 0 < length d then wrapper_Write d w else ((0, None), w)") auto
  have w1: "write_fails w1 = write_fails w \<and> flush_fails w1 = flush_fails w"
    using step by (auto split: if_splits dest!: wrapper_Write_frame)
  have "snd (CopyBuffer (a # rd) w n) = w1 \<or> snd (CopyBuffer (a # rd) w n) = snd (CopyBuffer rd w1 (n + nw))"
    using step by (simp add: a split: option.splits)
  then show ?case using w1 Cons[of w1 "n + nw"] by auto
qed

lemma ReadFrom_body_frame:
  "fst (snd (ReadFrom_body rd rw w)) = rw
   \<and> write_fails (snd (snd (ReadFrom_body rd rw w))) = write_fails w
   \<and> flush_fails (snd (snd (ReadFrom_body rd rw w))) = flush_fails w"
proof (cases "chunked rw")
  case True
  obtain ret e w1 where cl: "chunk_loop rd w = ((ret, e), w1)"
    by (cases "chunk_loop rd w") auto
  have w1: "write_fails w1 = write_fails w \<and> flush_fails w1 = flush_fails w"
    using chunk_loop_fails[of rd w] cl by simp
  obtain fe w2 where fl: "Writer_Flush w1 = (fe, w2)" by (cases "Writer_Flush w1")
  have w2: "write_fails w2 = write_fails w \<and> flush_fails w2 = flush_fails w"
    using Writer_Flush_frame[OF fl] w1 by simp
  show ?thesis using True cl fl w1 w2 by (cases ret) (simp_all add: ReadFrom_body_def)
next
  case False
  obtain res w1 where cb: "CopyBuffer rd w 0 = (res, w1)" by (cases "CopyBuffer rd w 0")
  then show ?thesis using False CopyBuffer_fails[of rd w 0] by (simp add: ReadFrom_body_def)
qed













section \<open>Facts about \<open>Flush\<close>\<close>

lemma Flush_committed:
  assumes "\<not> hijacked rw" "wroteHeader rw" "ctx rw = Some c" "conn c = Some cn" "body rw = Some b"
  shows "Flush env rw w =
     Some (rw\<lparr>body := Some (b\<lparr>B := []\<rparr>)\<rparr>,
           snd (Writer_Flush (if B b = [] then w else write_chunk (B b) w)))"
proof (cases "B b = []")
  case True
  then have "rw\<lparr>body := Some (b\<lparr>B := []\<rparr>)\<rparr> = rw" using assms(5) by simp
  then show ?thesis using assms True by (simp add: Flush_def)
next
  case False
  then show ?thesis using assms by (simp add: Flush_def)
qed

lemma Flush_commit:
  assumes "\<not> hijacked rw" "\<not> wroteHeader rw" "\<not> chunked rw"
    and "ctx rw = Some c" "conn c = Some cn" "body rw = Some b" "req rw = Some r"
    and sc: "sc = (if statusCode rw = 0 then 200 else statusCode rw)"
  shows "\<exists>h2. Flush env rw w =
     Some (rw\<lparr>statusCode := sc, wroteHeader := True, header := h2, chunked := \<not> noBody sc,
              body := Some (b\<lparr>B := []\<rparr>)\<rparr>,
           snd (Writer_Flush
             ((if B b = [] then id else write_chunk (B b))
                (snd (WriteBinary (status_line env r sc
                   @ (if noBody sc then [] else ''Transfer-Encoding: chunked'' @ CRLF)
                   @ header_lines h2 @ CRLF) w)))))
     \<and> \<not> has_key h2 ''Transfer-Encoding''"
proof -
  let ?rw0 = "default_status rw"
  have pre: "\<not> wroteHeader ?rw0" "body ?rw0 = Some b" "req ?rw0 = Some r"
    using assms by (simp_all add: default_status_fields)
  have sc0: "statusCode ?rw0 = sc" by (simp add: sc default_status_fields)
  from writeHeaders_commit[OF pre, of env True w] obtain h2 where
    wh: "writeHeaders env True ?rw0 w =
           Some (?rw0\<lparr>wroteHeader := True, header := h2,
                    chunked := (if True \<and> \<not> noBody (statusCode ?rw0) then True else chunked ?rw0)\<rparr>,
                 snd (WriteBinary (status_line env r (statusCode ?rw0)
                    @ (if True \<and> \<not> noBody (statusCode ?rw0) then ''Transfer-Encoding: chunked'' @ CRLF else [])
                    @ header_lines h2 @ CRLF) w))"
    and te: "\<not> has_key h2 ''Transfer-Encoding''"
    by blast
  have rw0: "?rw0 = rw\<lparr>statusCode := sc\<rparr>"
    by (simp add: default_status_def sc)
  show ?thesis
    using assms(1-7) wh te
    unfolding sc0 rw0
    by (intro exI[of _ h2]) (auto simp add: Flush_def default_status_fields rw0)
qed


lemma Write_then_Flush_committed:
  assumes "\<not> hijacked rw" "wroteHeader rw" "ctx rw = Some c" "conn c = Some cn"
    and "body rw = Some b" "B b = []" "\<not> write_fails w"
  shows "\<exists>rw2 w2. ServeHTTP env [OpWrite p, OpFlush] rw w = Some (rw2, w2)
         \<and> written w2 = written w @ (if p = [] then [] else chunk_frame p)
         \<and> body rw2 = Some b"
proof -
  let ?rw1 = "rw\<lparr>body := Some (b\<lparr>B := p\<rparr>)\<rparr>"
  have w: "Write p rw = Some ((length p, None), ?rw1)"
    using assms by (simp add: Write_def)
  have pre: "\<not> hijacked ?rw1" "wroteHeader ?rw1" "ctx ?rw1 = Some c" "body ?rw1 = Some (b\<lparr>B := p\<rparr>)"
    using assms by simp_all
  have f: "Flush env ?rw1 w =
     Some (?rw1\<lparr>body := Some ((b\<lparr>B := p\<rparr>)\<lparr>B := []\<rparr>)\<rparr>,
           snd (Writer_Flush (if B (b\<lparr>B := p\<rparr>) = [] then w else write_chunk (B (b\<lparr>B := p\<rparr>)) w)))"
    by (rule Flush_committed[OF pre(1,2,3) assms(4) pre(4)])
  have b: "(b\<lparr>B := p\<rparr>)\<lparr>B := []\<rparr> = b" using assms(6) by simp
  show ?thesis
    using w f assms(7) b
    by (simp add: written_Writer_Flush written_write_chunk)
qed

section \<open>Facts about \<open>handleRequest\<close>\<close>


section \<open>What a finished request cycle leaves behind\<close>

lemma NewRequestContext_bound:
  "GetReader (fst (NewRequestContext cn px cp)) = \<lparr>conn = Some cn, parent = Some px, reader = Some cn\<rparr>
   \<and> snd (NewRequestContext cn px cp) = tl cp"
  by (cases cp) (simp_all add: NewRequestContext_def GetReader_def)

lemma EndResponse_done:
  assumes e: "EndResponse env rw w bp = Some (None, rw', w', bp')" and nh: "\<not> hijacked rw"
  shows "\<exists>b. body rw = Some b \<and> body rw' = None \<and> bp' = bytebufferpool_Put b bp \<and> \<not> hijacked rw'"
proof -
  obtain c where c: "ctx rw = Some c" using e nh
    by (cases "ctx rw") (simp_all add: EndResponse_def)
  obtain cn where cn: "conn c = Some cn" using e nh c
    by (cases "conn c") (simp_all add: EndResponse_def)
  let ?s = "Header_Get (header rw) ''Transfer-Encoding'' = ''chunked''"
  let ?first = "if \<not> wroteHeader rw then writeHeaders env ?s (default_status rw) w else Some (rw, w)"
  obtain rw1 w1 where f: "?first = Some (rw1, w1)" using e nh c cn
    by (cases ?first) (auto simp add: EndResponse_def)
  have fr: "body rw1 = body rw \<and> hijacked rw1 = hijacked rw"
    using f writeHeaders_frame[of env ?s "default_status rw" w rw1 w1]
    by (auto simp: default_status_fields split: if_splits)
  obtain b where b: "body rw1 = Some b" using e nh c cn f
    by (cases "body rw1") (simp_all add: EndResponse_def)
  have "rw' = rw1\<lparr>body := None\<rparr> \<and> bp' = bytebufferpool_Put b bp"
    using e nh c cn f b
    by (auto simp add: EndResponse_def end_flush_def Let_def split: if_splits prod.splits option.splits)
  then show ?thesis using fr b nh by (intro exI[of _ b]) simp
qed


lemma EndResponse_hijacked:
  assumes e: "EndResponse env rw w bp = Some (err, rw', w', bp')"
  shows "hijacked rw' = hijacked rw"
proof (cases "hijacked rw")
  case True
  then show ?thesis using e by (auto simp add: EndResponse_def split: Option.bind_splits)
next
  case nh: False
  obtain c where c: "ctx rw = Some c" using e nh
    by (cases "ctx rw") (simp_all add: EndResponse_def)
  obtain cn where cn: "conn c = Some cn" using e nh c
    by (cases "conn c") (simp_all add: EndResponse_def)
  let ?s = "Header_Get (header rw) ''Transfer-Encoding'' = ''chunked''"
  let ?first = "if \<not> wroteHeader rw then writeHeaders env ?s (default_status rw) w else Some (rw, w)"
  obtain rw1 w1 where f: "?first = Some (rw1, w1)" using e nh c cn
    by (cases ?first) (auto simp add: EndResponse_def)
  have fr: "hijacked rw1 = hijacked rw"
    using f writeHeaders_frame[of env ?s "default_status rw" w rw1 w1]
    by (auto simp: default_status_fields split: if_splits)
  obtain b where b: "body rw1 = Some b" using e nh c cn f
    by (cases "body rw1") (simp_all add: EndResponse_def)
  have "rw' = rw1\<lparr>body := None\<rparr> \<or> rw' = rw1"
    using e nh c cn f b
    by (auto simp add: EndResponse_def end_flush_def Let_def split: if_splits prod.splits option.splits)
  then show ?thesis using fr by auto
qed

lemma Write_buf_id:
  "Write p rw = Some (res, rw') \<Longrightarrow> map_option buf_id (body rw') = map_option buf_id (body rw)"
  by (auto simp: Write_def default_status_def Let_def split: if_splits option.splits)

lemma Hijack_buf_id:
  "Hijack rw = Some (res, rw') \<Longrightarrow> map_option buf_id (body rw') = map_option buf_id (body rw)"
  by (auto simp: Hijack_def split: if_splits option.splits)

lemma Flush_buf_id:
  assumes e: "Flush env rw w = Some (rw', w')"
  shows "map_option buf_id (body rw') = map_option buf_id (body rw)"
proof (cases "hijacked rw")
  case True
  then show ?thesis using e by (simp add: Flush_def)
next
  case nh: False
  obtain c where c: "ctx rw = Some c" using e nh
    by (cases "ctx rw") (simp_all add: Flush_def)
  obtain cn where cn: "conn c = Some cn" using e nh c
    by (cases "conn c") (simp_all add: Flush_def)
  let ?first = "if \<not> wroteHeader rw then writeHeaders env True (default_status rw) w else Some (rw, w)"
  obtain rw1 w1 where f: "?first = Some (rw1, w1)" using e nh c cn
    by (cases ?first) (auto simp add: Flush_def)
  have fr: "body rw1 = body rw"
    using f writeHeaders_frame[of env True "default_status rw" w rw1 w1]
    by (auto simp: default_status_fields split: if_splits)
  obtain b where b: "body rw1 = Some b" using e nh c cn f
    by (cases "body rw1") (simp_all add: Flush_def)
  have "rw' = rw1\<lparr>body := Some (b\<lparr>B := []\<rparr>)\<rparr> \<or> rw' = rw1"
    using e nh c cn f b
    by (auto simp add: Flush_def Let_def split: if_splits)
  moreover have "body rw = Some b" using fr b by simp
  ultimately show ?thesis using b by auto
qed

lemma ReadFrom_buf_id:
  assumes e: "ReadFrom env rd rw w = Some (res, rw', w')"
  shows "map_option buf_id (body rw') = map_option buf_id (body rw)"
proof (cases "hijacked rw")
  case True
  then show ?thesis using e by (simp add: ReadFrom_def)
next
  case nh: False
  obtain c where c: "ctx rw = Some c" using e nh
    by (cases "ctx rw") (simp_all add: ReadFrom_def)
  obtain cn where cn: "conn c = Some cn" using e nh c
    by (cases "conn c") (simp_all add: ReadFrom_def)
  show ?thesis
  proof (cases "wroteHeader rw")
    case True
    then have "Some (ReadFrom_body rd rw w) = Some (res, rw', w')"
      using e nh c cn by (simp add: ReadFrom_def)
    then show ?thesis using ReadFrom_body_frame[of rd rw w] by auto
  next
    case nw: False
    let ?sh = "if Header_Get (header (default_status rw)) ''Transfer-Encoding'' = ''chunked'' then True
               else (\<not> has_key (header (default_status rw)) ''Content-Length''
                     \<and> \<not> Header_Get (header (default_status rw)) ''Transfer-Encoding'' = ''chunked'')"
    obtain rw1 w1 where wh: "writeHeaders env ?sh (default_status rw) w = Some (rw1, w1)"
      using e nh c cn nw
      by (cases "writeHeaders env ?sh (default_status rw) w") (auto simp add: ReadFrom_def Let_def)
    have fr: "body rw1 = body rw"
      using writeHeaders_frame[OF wh] by (simp add: default_status_fields)
    obtain fe w2 where fl: "Writer_Flush w1 = (fe, w2)" by (cases "Writer_Flush w1")
    have "rw' = rw1"
    proof (cases fe)
      case None
      then have "Some (ReadFrom_body rd rw1 w2) = Some (res, rw', w')"
        using e nh c cn nw wh fl by (simp add: ReadFrom_def Let_def)
      then show ?thesis using ReadFrom_body_frame[of rd rw1 w2] by auto
    next
      case (Some x)
      then show ?thesis using e nh c cn nw wh fl by (simp add: ReadFrom_def Let_def)
    qed
    then show ?thesis using fr by simp
  qed
qed

lemma run_op_buf_id:
  assumes "run_op env x rw w = Some (rw', w')"
  shows "map_option buf_id (body rw') = map_option buf_id (body rw)"
proof (cases x)
  case (OpSetHeader k v)
  then show ?thesis using assms by auto
next
  case (OpDelHeader k)
  then show ?thesis using assms by auto
next
  case (OpWriteHeader sc)
  then show ?thesis using assms by (auto simp: WriteHeader_def)
next
  case (OpWrite p)
  then show ?thesis using assms by (auto dest: Write_buf_id)
next
  case (OpReadFrom rd)
  then show ?thesis using assms by (auto dest: ReadFrom_buf_id)
next
  case OpFlush
  then show ?thesis using assms by (auto dest: Flush_buf_id)
next
  case OpHijack
  then show ?thesis using assms by (auto dest: Hijack_buf_id)
qed

lemma ServeHTTP_buf_id:
  "ServeHTTP env xs rw w = Some (rw', w') \<Longrightarrow>
     map_option buf_id (body rw') = map_option buf_id (body rw)"
proof (induction xs arbitrary: rw w)
  case Nil
  then show ?case by simp
next
  case (Cons x xs)
  obtain rw1 w1 where s: "run_op env x rw w = Some (rw1, w1)"
    using Cons.prems by (cases "run_op env x rw w") auto
  have "ServeHTTP env xs rw1 w1 = Some (rw', w')" using Cons.prems s by simp
  from Cons.IH[OF this] run_op_buf_id[OF s] show ?case by simp
qed

lemma handleRequest_done:
  assumes hr: "handleRequest env (Inr (r, h)) c W = Some ((ro, False, None), c1, W1)"
  shows "ro = Some r \<and> c1 = GetReader c \<and> ctxPool W1 = ctxPool W
       \<and> (\<exists>x. rwPool W1 = x # tl (rwPool W)
              \<and> ctx x = None \<and> req x = None \<and> body x = None \<and> header x = [])
       \<and> free (bufpool W1) = buf_id (fst (bytebufferpool_Get (bufpool W)))
                                 # free (snd (bytebufferpool_Get (bufpool W)))"
proof -
  obtain b0 bp1 where get: "bytebufferpool_Get (bufpool W) = (b0, bp1)"
    by (cases "bytebufferpool_Get (bufpool W)")
  obtain rw rp0 rp1 where new: "NewResponseWriter (GetReader c) r (bufpool W) (rwPool W) = (rw, rp0, rp1)"
    by (cases "NewResponseWriter (GetReader c) r (bufpool W) (rwPool W)") auto
  have rp0: "rp0 = bp1" and b0: "body rw = Some b0"
    using new get by (auto simp add: NewResponseWriter_def split: prod.splits)
  have rp1: "rp1 = tl (rwPool W)"
    using rwPool_after_New[of "GetReader c" r "bufpool W" "rwPool W"] new by simp
  obtain rw1 w1 where run: "ServeHTTP env (ops h) rw (writer W) = Some (rw1, w1)"
    using hr new by (cases "ServeHTTP env (ops h) rw (writer W)") (auto simp add: handleRequest_def GetRequest_def)
  let ?rw2 = "if panics h then WriteHeader 500 rw1 else rw1"
  obtain err rw3 w2 bp2 where er: "EndResponse env ?rw2 w1 bp1 = Some (err, rw3, w2, bp2)"
    using hr new run rp0
    by (cases "EndResponse env ?rw2 w1 bp1") (auto simp add: handleRequest_def GetRequest_def)
  obtain rw4 bp3 rp2 where rel: "Release rw3 bp2 rp1 = (rw4, bp3, rp2)"
    by (cases "Release rw3 bp2 rp1") auto
  have res: "err = None \<and> ro = Some r \<and> \<not> hijacked rw3 \<and> c1 = GetReader c
             \<and> W1 = W\<lparr>writer := w2, bufpool := bp3, rwPool := rp2\<rparr>"
    using hr new run er rel rp0
    by (cases err) (auto simp add: handleRequest_def GetRequest_def Hijacked_def)
  have nh2: "\<not> hijacked ?rw2"
    using EndResponse_hijacked[OF er] res by simp
  have er': "EndResponse env ?rw2 w1 bp1 = Some (None, rw3, w2, bp2)"
    using er res by simp
  from EndResponse_done[OF er' nh2] obtain b where
    b: "body ?rw2 = Some b" "body rw3 = None" "bp2 = bytebufferpool_Put b bp1"
    by blast
  have "map_option buf_id (body ?rw2) = map_option buf_id (body rw)"
    using ServeHTTP_buf_id[OF run] by (simp add: WriteHeader_def)
  then have id: "buf_id b = buf_id b0" using b(1) b0 by simp
  have rel': "rw4 = rw3\<lparr>ctx := None, req := None, header := []\<rparr> \<and> bp3 = bp2 \<and> rp2 = rw4 # rp1"
    using rel b(2) by (auto simp add: Release_def Let_def)
  have pool: "rwPool W1 = rw4 # tl (rwPool W)" "ctx rw4 = None" "req rw4 = None" "body rw4 = None"
    "header rw4 = []"
    using res rel' rp1 b(2) by simp_all
  have buf: "free (bufpool W1) = buf_id b0 # free bp1"
    using res rel' b(3) id by (simp add: bytebufferpool_Put_def)
  show ?thesis using res pool buf get by auto
qed

section \<open>Default framing at finalization\<close>

text \<open>
  Claim C1 says that a writer with no explicit \<open>Content-Length\<close> on which \<open>Flush\<close> was
  never called is finalized in chunked mode, as the repository's \<open>TestNormalResponse\<close>
  expects. The code does otherwise: \<open>EndResponse\<close> passes
  \<open>isStreaming = (Transfer-Encoding == "chunked")\<close> to \<open>writeHeaders\<close>, which is false
  for a writer without headers. After \<open>Write("hello")\<close> the response is fixed-length:
  the chunked flag stays false, no \<open>Transfer-Encoding\<close> line is emitted, a
  \<open>Content-Length: 5\<close> is computed and the body follows unframed.
\<close>

theorem EndResponse_default_is_fixed_length:
  "map_option (\<lambda>(err, rw, w, bp). (chunked rw, written w))
     (respond env0 [OpWrite ''hello''] rw0 w0 bp1)
   = Some (False,
       ''HTTP/1.1 200 OK'' @ CRLF
       @ ''Date: Fri, 30 Oct 2026 08:00:00 GMT'' @ CRLF
       @ ''Content-Type: text/plain; charset=utf-8'' @ CRLF
       @ ''Content-Length: 5'' @ CRLF
       @ CRLF
       @ ''hello'')"
  by code_simp

section \<open>Hijack\<close>

text \<open>
  Claim C2 says that \<open>Hijack\<close> fails once the headers are committed and leaves the
  hijacked flag false, as the repository's \<open>TestHijack_AfterWrite\<close> expects. The code
  checks the hijacked flag only: after \<open>Write\<close> and \<open>Flush\<close> have committed the
  headers, \<open>Hijack\<close> returns no error and sets the flag.
\<close>

theorem Hijack_after_commit_succeeds:
  "map_option
     (\<lambda>(rw, w). (wroteHeader rw, map_option (\<lambda>((cn, err), rw'). (err, hijacked rw')) (Hijack rw)))
     (ServeHTTP env0 [OpWrite ''trigger headers'', OpFlush] rw0 w0)
   = Some (True, Some (None, True))"
  by code_simp

section \<open>Checking the body buffer back in\<close>

text \<open>
  Claim C10 says that \<open>EndResponse\<close> and \<open>Release\<close> together check the body buffer in at
  most once, \<open>EndResponse\<close> clearing the reference wherever it returns the buffer. The
  main path does so; the hijacked path and the failed-write path call
  \<open>bytebufferpool.Put\<close> and return with the reference still set, so \<open>Release\<close> puts
  the same buffer again. After \<open>Hijack\<close>, and after a failed body write, the writer
  still holds buffer 0 when \<open>EndResponse\<close> returns, and the pool's list of checked-in
  buffers holds it twice after \<open>Release\<close>.
\<close>

theorem EndResponse_Release_put_twice:
  "map_option (\<lambda>(err, rw, w, bp). (err, map_option buf_id (body rw), free bp, free (fst (snd (Release rw bp [])))))
     (respond env0 [OpHijack] rw0 w0 bp1)
   = Some (None, Some 0, [0], [0, 0])
   \<and> map_option (\<lambda>(err, rw, w, bp). (err, map_option buf_id (body rw), free bp, free (fst (snd (Release rw bp [])))))
     (respond env0 [OpWrite ''hello''] rw0 (w0\<lparr>write_fails := True\<rparr>) bp1)
   = Some (Some errIO, Some 0, [0], [0, 0])"
  by code_simp

section \<open>The status code\<close>

text \<open>
  Claim C5 as stated (first caller wins) fails: \<open>WriteHeader(200)\<close> followed by
  \<open>WriteHeader(404)\<close> before any commit leaves 404 in the writer, and 404 is the status
  that \<open>EndResponse\<close> emits.
\<close>

theorem WriteHeader_first_call_loses:
  "map_option (\<lambda>(err, rw, w, bp). (statusCode rw, written w))
     (respond env0 [OpWriteHeader 200, OpWriteHeader 404] rw0 w0 bp1)
   = Some (404,
       ''HTTP/1.1 404 Not Found'' @ CRLF
       @ ''Date: Fri, 30 Oct 2026 08:00:00 GMT'' @ CRLF
       @ ''Content-Length: 0'' @ CRLF
       @ CRLF)"
  by code_simp

text \<open>
  Claim C5, amended: before commit and hijack the last call wins. After any sequence of
  \<open>WriteHeader\<close> calls ending in \<open>WriteHeader sc\<close> the writer differs from the one before
  only in its status code, which is \<open>sc\<close>; \<open>EndResponse\<close> then emits the status line
  of \<open>sc\<close> (of 200 when \<open>sc\<close> is 0). On a writer whose headers are committed or which
  is hijacked, \<open>WriteHeader\<close> changes nothing.
\<close>

theorem WriteHeader_last_call_wins:
  assumes "\<not> hijacked rw" "\<not> wroteHeader rw" "\<not> chunked rw"
    and "ctx rw = Some c" "conn c = Some cn" "body rw = Some b" "req rw = Some r"
    and "\<not> write_fails w"
  shows "fold WriteHeader (scs @ [sc]) rw = rw\<lparr>statusCode := sc\<rparr>
       \<and> (\<exists>err rw' w' bp' rest.
             EndResponse env (fold WriteHeader (scs @ [sc]) rw) w bp = Some (err, rw', w', bp')
             \<and> statusCode rw' = (if sc = 0 then 200 else sc)
             \<and> written w' = written w @ status_line env r (if sc = 0 then 200 else sc) @ rest)
       \<and> (wroteHeader rwc \<or> hijacked rwc \<longrightarrow> WriteHeader sc' rwc = rwc)"
proof -
  have last: "fold WriteHeader (scs @ [sc]) rw = rw\<lparr>statusCode := sc\<rparr>"
    by (rule fold_WriteHeader_last[OF assms(2) assms(1)])
  let ?rw = "rw\<lparr>statusCode := sc\<rparr>"
  have "\<exists>rw' w'. EndResponse env ?rw w bp =
            Some (if flush_fails w then Some errIO else None, rw', w', bytebufferpool_Put b bp)
         \<and> statusCode rw' = (if sc = 0 then 200 else sc) \<and> wroteHeader rw'
         \<and> chunked rw' = (Header_Get (header ?rw) ''Transfer-Encoding'' = ''chunked''
                            \<and> \<not> noBody (if sc = 0 then 200 else sc))
         \<and> body rw' = None \<and> \<not> hijacked rw'
         \<and> written w' = written w @ status_line env r (if sc = 0 then 200 else sc)
              @ (if (Header_Get (header ?rw) ''Transfer-Encoding'' = ''chunked''
                            \<and> \<not> noBody (if sc = 0 then 200 else sc))
                 then ''Transfer-Encoding: chunked'' @ CRLF else [])
              @ header_lines (header rw') @ CRLF
              @ (if (Header_Get (header ?rw) ''Transfer-Encoding'' = ''chunked''
                            \<and> \<not> noBody (if sc = 0 then 200 else sc))
                 then (if B b = [] then [] else chunk_frame (B b)) @ ''0'' @ CRLF @ CRLF
                 else if noBody (if sc = 0 then 200 else sc) then [] else B b)
         \<and> \<not> has_key (header rw') ''Transfer-Encoding''
         \<and> map_of (header rw') ''Content-Length'' =
             (if (Header_Get (header ?rw) ''Transfer-Encoding'' = ''chunked''
                            \<and> \<not> noBody (if sc = 0 then 200 else sc)) then None
              else if Header_Get (header ?rw) ''Content-Length'' = [] \<and> \<not> noBody (if sc = 0 then 200 else sc)
                   then Some [Itoa (int (length (B b)))]
              else map_of (header ?rw) ''Content-Length'')"
    by (rule EndResponse_commit[where c = c and cn = cn and r = r]) (use assms in simp_all)
  then have emit: "\<exists>err rw' w' bp' rest.
             EndResponse env ?rw w bp = Some (err, rw', w', bp')
             \<and> statusCode rw' = (if sc = 0 then 200 else sc)
             \<and> written w' = written w @ status_line env r (if sc = 0 then 200 else sc) @ rest"
    by blast
  have "wroteHeader rwc \<or> hijacked rwc \<longrightarrow> WriteHeader sc' rwc = rwc"
    by (simp add: WriteHeader_committed)
  with last emit show ?thesis by simp
qed

theorem WriteHeader_last_call_wins_witness:
  "fold WriteHeader ([200] @ [404]) rw0 = rw0\<lparr>statusCode := 404\<rparr>
   \<and> (\<exists>err rw' w' bp' rest.
         EndResponse env0 (fold WriteHeader ([200] @ [404]) rw0) w0 bp1 = Some (err, rw', w', bp')
         \<and> statusCode rw' = 404
         \<and> written w' = written w0 @ status_line env0 req0 404 @ rest)
   \<and> WriteHeader 200 (rw0\<lparr>wroteHeader := True\<rparr>) = rw0\<lparr>wroteHeader := True\<rparr>"
proof -
  have hyps: "\<not> hijacked rw0" "\<not> wroteHeader rw0" "\<not> chunked rw0"
    "ctx rw0 = Some ctx0" "conn ctx0 = Some 0" "body rw0 = Some \<lparr>buf_id = 0, B = []\<rparr>"
    "req rw0 = Some req0" "\<not> write_fails w0"
    by (simp_all add: rw0_fields ctx0_def w0_def)
  have committed: "wroteHeader (rw0\<lparr>wroteHeader := True\<rparr>) \<or> hijacked (rw0\<lparr>wroteHeader := True\<rparr>)"
    by simp
  have sc: "(if (404::int) = 0 then 200 else 404) = 404"
    by simp
  from WriteHeader_last_call_wins[OF hyps, where scs = "[200]" and sc = 404 and env = env0
      and bp = bp1 and rwc = "rw0\<lparr>wroteHeader := True\<rparr>" and sc' = 200] committed
  show ?thesis unfolding sc by blast
qed

section \<open>A writer taken from the pool\<close>

text \<open>
  Claim C9: whatever writers were released before, in whatever state, the writer that
  \<open>NewResponseWriter\<close> returns has status code 0, the three flags false, an empty
  header map, and the context and request of the new cycle.
\<close>

theorem NewResponseWriter_fresh:
  assumes "reachable_rwPool rp"
  shows "statusCode (fst (NewResponseWriter c r bp rp)) = 0
       \<and> \<not> wroteHeader (fst (NewResponseWriter c r bp rp))
       \<and> \<not> hijacked (fst (NewResponseWriter c r bp rp))
       \<and> \<not> chunked (fst (NewResponseWriter c r bp rp))
       \<and> header (fst (NewResponseWriter c r bp rp)) = []
       \<and> ctx (fst (NewResponseWriter c r bp rp)) = Some c
       \<and> req (fst (NewResponseWriter c r bp rp)) = Some r"
  using pool_clean[OF assms]
  by (cases rp) (simp_all add: NewResponseWriter_def rwPool_Get_def rwPool_New_def split: prod.splits)

theorem NewResponseWriter_fresh_witness:
  "reachable_rwPool (snd (snd (Release rw_used bp0 [])))
   \<and> fst (rwPool_Get (snd (snd (Release rw_used bp0 [])))) = rw_used\<lparr>ctx := None, req := None, body := None, header := []\<rparr>
   \<and> statusCode (fst (NewResponseWriter ctx0 req0 bp0 (snd (snd (Release rw_used bp0 []))))) = 0
   \<and> \<not> wroteHeader (fst (NewResponseWriter ctx0 req0 bp0 (snd (snd (Release rw_used bp0 [])))))
   \<and> \<not> hijacked (fst (NewResponseWriter ctx0 req0 bp0 (snd (snd (Release rw_used bp0 [])))))
   \<and> \<not> chunked (fst (NewResponseWriter ctx0 req0 bp0 (snd (snd (Release rw_used bp0 [])))))
   \<and> header (fst (NewResponseWriter ctx0 req0 bp0 (snd (snd (Release rw_used bp0 []))))) = []
   \<and> ctx (fst (NewResponseWriter ctx0 req0 bp0 (snd (snd (Release rw_used bp0 []))))) = Some ctx0
   \<and> req (fst (NewResponseWriter ctx0 req0 bp0 (snd (snd (Release rw_used bp0 []))))) = Some req0"
proof -
  have reach: "reachable_rwPool (snd (snd (Release rw_used bp0 [])))"
    by (rule pool_Release[OF pool_empty])
  have got: "fst (rwPool_Get (snd (snd (Release rw_used bp0 [])))) = rw_used\<lparr>ctx := None, req := None, body := None, header := []\<rparr>"
    by (simp add: Release_def rwPool_Get_def rw_used_def Let_def)
  from reach got NewResponseWriter_fresh[OF reach, of ctx0 req0 bp0] show ?thesis by simp
qed

section \<open>Statuses that carry no body\<close>

text \<open>
  Claim C4 as stated fails where the caller has set \<open>Content-Length\<close>: with status 204,
  \<open>Content-Length: 10\<close> set by the caller and \<open>hello\<close> buffered, \<open>EndResponse\<close> emits
  the caller's \<open>Content-Length: 10\<close> line (and, as claimed, no body).
\<close>

theorem EndResponse_noBody_keeps_explicit_Content_Length:
  "map_option (\<lambda>(err, rw, w, bp). written w)
     (respond env0 [OpWriteHeader 204, OpSetHeader ''Content-Length'' ''10'', OpWrite ''hello'']
        rw0 w0 bp1)
   = Some (''HTTP/1.1 204 No Content'' @ CRLF
       @ ''Content-Length: 10'' @ CRLF
       @ ''Date: Fri, 30 Oct 2026 08:00:00 GMT'' @ CRLF
       @ ''Content-Type: text/plain; charset=utf-8'' @ CRLF
       @ CRLF)"
  by code_simp

text \<open>
  Claim C4, amended: for a status in 1xx, 204 or 304, whatever is buffered,
  \<open>EndResponse\<close> emits no body bytes; when it commits the headers it emits the status
  line, the header lines and the blank line only, adds no \<open>Content-Length\<close> and emits
  no \<open>Transfer-Encoding\<close> header, while a \<open>Content-Length\<close> the caller has set is
  emitted as the caller set it. (When the headers were committed before, it emits
  nothing at all.) The writer is not in chunked mode, which holds of every writer with
  such a status, since the chunked flag is set at commit only and never for these codes.
\<close>

theorem EndResponse_noBody_status:
  assumes "\<not> hijacked rw" "\<not> chunked rw"
    and "ctx rw = Some c" "conn c = Some cn" "body rw = Some b" "req rw = Some r"
    and "\<not> write_fails w"
    and nb: "noBody (statusCode rw)"
  shows "\<exists>err rw' w' bp'. EndResponse env rw w bp = Some (err, rw', w', bp')
         \<and> \<not> chunked rw'
         \<and> written w' = written w
              @ (if wroteHeader rw then []
                 else status_line env r (statusCode rw) @ header_lines (header rw') @ CRLF)
         \<and> (\<not> wroteHeader rw \<longrightarrow>
                \<not> has_key (header rw') ''Transfer-Encoding''
              \<and> map_of (header rw') ''Content-Length'' = map_of (header rw) ''Content-Length'')"
proof (cases "wroteHeader rw")
  case True
  then show ?thesis
    using assms
    by (simp add: EndResponse_def end_flush_def written_Writer_Flush)
next
  case False
  have nz: "statusCode rw \<noteq> 0"
    using nb by (auto simp: noBody_def)
  have "\<exists>rw' w'. EndResponse env rw w bp =
            Some (if flush_fails w then Some errIO else None, rw', w', bytebufferpool_Put b bp)
         \<and> statusCode rw' = statusCode rw \<and> wroteHeader rw' \<and> chunked rw' = False \<and> body rw' = None
         \<and> \<not> hijacked rw'
         \<and> written w' = written w @ status_line env r (statusCode rw)
              @ (if False then ''Transfer-Encoding: chunked'' @ CRLF else [])
              @ header_lines (header rw') @ CRLF
              @ (if False then (if B b = [] then [] else chunk_frame (B b)) @ ''0'' @ CRLF @ CRLF
                 else if noBody (statusCode rw) then [] else B b)
         \<and> \<not> has_key (header rw') ''Transfer-Encoding''
         \<and> map_of (header rw') ''Content-Length'' =
             (if False then None
              else if Header_Get (header rw) ''Content-Length'' = [] \<and> \<not> noBody (statusCode rw)
                   then Some [Itoa (int (length (B b)))]
              else map_of (header rw) ''Content-Length'')"
    by (rule EndResponse_commit[where c = c and cn = cn and r = r])
       (use assms False nz in simp_all)
  then show ?thesis using False nb by auto
qed

theorem EndResponse_noBody_status_witness:
  "noBody 204
   \<and> (\<exists>err rw' w' bp'.
         EndResponse env0 (rw0\<lparr>statusCode := 204, body := Some \<lparr>buf_id = 0, B = ''hello''\<rparr>\<rparr>) w0 bp1
           = Some (err, rw', w', bp')
         \<and> \<not> chunked rw'
         \<and> written w' = written w0 @ status_line env0 req0 204 @ header_lines (header rw') @ CRLF
         \<and> \<not> has_key (header rw') ''Transfer-Encoding''
         \<and> map_of (header rw') ''Content-Length'' = None)"
proof -
  let ?rw = "rw0\<lparr>statusCode := 204, body := Some \<lparr>buf_id = 0, B = ''hello''\<rparr>\<rparr>"
  have hyps: "\<not> hijacked ?rw" "\<not> chunked ?rw" "ctx ?rw = Some ctx0" "conn ctx0 = Some 0"
    "body ?rw = Some \<lparr>buf_id = 0, B = ''hello''\<rparr>" "req ?rw = Some req0" "\<not> write_fails w0"
    "noBody (statusCode ?rw)"
    by (simp_all add: rw0_fields ctx0_def w0_def noBody_def)
  have more: "\<not> wroteHeader ?rw" "map_of (header ?rw) ''Content-Length'' = None"
    "statusCode ?rw = 204" "noBody 204"
    by (simp_all add: rw0_fields noBody_def)
  from EndResponse_noBody_status[OF hyps, of env0 bp1] more show ?thesis
    by auto
qed

section \<open>An explicit \<open>Content-Length\<close>\<close>




section \<open>Flush\<close>

text \<open>
  Claim C7 as stated fails for a status that carries no body: after \<open>WriteHeader(204)\<close>
  and \<open>Write("hello")\<close>, \<open>Flush\<close> commits the headers without
  \<open>Transfer-Encoding: chunked\<close> and leaves the chunked flag false, so the writer is not
  in chunked mode; and the buffered bytes are then emitted as a chunk frame, not as they
  are.
\<close>

theorem Flush_noBody_not_chunked_yet_framed:
  "map_option (\<lambda>(rw, w). (chunked rw, written w))
     (ServeHTTP env0 [OpWriteHeader 204, OpWrite ''hello'', OpFlush] rw0 w0)
   = Some (False,
       ''HTTP/1.1 204 No Content'' @ CRLF
       @ ''Date: Fri, 30 Oct 2026 08:00:00 GMT'' @ CRLF
       @ ''Content-Type: text/plain; charset=utf-8'' @ CRLF
       @ CRLF
       @ ''5'' @ CRLF @ ''hello'' @ CRLF)"
  by code_simp

text \<open>
  Claim C7, amended: on a writer that is not hijacked, \<open>Flush\<close> commits the headers if
  they are not yet committed, asking for chunked mode, which the commit grants unless
  the status is in 1xx, 204 or 304; when the writer is in chunked mode afterwards, what
  \<open>Flush\<close> has written is the header block (if it committed), with
  \<open>Transfer-Encoding: chunked\<close>, followed by the buffered bytes as one chunk frame
  (nothing for an empty buffer); the buffer is emptied and the transport flushed; and
  a later \<open>Write\<close> and \<open>Flush\<close> emit one more frame, of the bytes written since. What
  \<open>Flush\<close> writes when the writer is not in chunked mode is left open. (The chunked
  flag is only ever set at commit, whence the second hypothesis.)
\<close>

theorem Flush_emits_chunk:
  assumes "\<not> hijacked rw" "wroteHeader rw \<or> \<not> chunked rw"
    and "ctx rw = Some c" "conn c = Some cn" "body rw = Some b" "req rw = Some r"
    and "\<not> write_fails w"
    and sc: "sc = (if statusCode rw = 0 then 200 else statusCode rw)"
  shows "\<exists>rw' w'. Flush env rw w = Some (rw', w')
         \<and> wroteHeader rw' \<and> \<not> hijacked rw' \<and> body rw' = Some (b\<lparr>B := []\<rparr>)
         \<and> chunked rw' = (if wroteHeader rw then chunked rw else \<not> noBody sc)
         \<and> (chunked rw' \<longrightarrow>
               written w' = written w
                 @ (if wroteHeader rw then []
                    else status_line env r sc @ ''Transfer-Encoding: chunked'' @ CRLF
                         @ header_lines (header rw') @ CRLF)
                 @ (if B b = [] then [] else chunk_frame (B b)))
         \<and> (\<not> flush_fails w \<longrightarrow> pending w' = [])
         \<and> (chunked rw' \<longrightarrow>
               (\<exists>rw2 w2. ServeHTTP env [OpWrite p, OpFlush] rw' w' = Some (rw2, w2)
                  \<and> written w2 = written w' @ (if p = [] then [] else chunk_frame p)))"
proof (cases "wroteHeader rw")
  case True
  let ?rw' = "rw\<lparr>body := Some (b\<lparr>B := []\<rparr>)\<rparr>"
  let ?w' = "snd (Writer_Flush (if B b = [] then w else write_chunk (B b) w))"
  have f: "Flush env rw w = Some (?rw', ?w')"
    by (rule Flush_committed[OF assms(1) True assms(3,4,5)])
  have wf: "\<not> write_fails ?w'"
    using assms(7) by (simp add: fails_Writer_Flush fails_write_chunk)
  have later: "\<exists>rw2 w2. ServeHTTP env [OpWrite p, OpFlush] ?rw' ?w' = Some (rw2, w2)
         \<and> written w2 = written ?w' @ (if p = [] then [] else chunk_frame p)
         \<and> body rw2 = Some (b\<lparr>B := []\<rparr>)"
    by (rule Write_then_Flush_committed[where c = c and cn = cn])
       (use assms True wf in simp_all)
  have wr: "written ?w' = written w @ (if B b = [] then [] else chunk_frame (B b))"
    using assms(7) by (simp add: written_Writer_Flush written_write_chunk)
  have pe: "\<not> flush_fails w \<longrightarrow> pending ?w' = []"
    by (simp add: pending_Writer_Flush fails_write_chunk)
  have later': "\<exists>rw2 w2. ServeHTTP env [OpWrite p, OpFlush] ?rw' ?w' = Some (rw2, w2)
         \<and> written w2 = written ?w' @ (if p = [] then [] else chunk_frame p)"
    using later by blast
  show ?thesis
    using f True assms(1) wr pe later' by (simp del: ServeHTTP.simps)
next
  case False
  then have nc: "\<not> chunked rw" using assms(2) by simp
  from Flush_commit[OF assms(1) False nc assms(3,4,5,6) sc, of env w] obtain h2 where
    f: "Flush env rw w =
     Some (rw\<lparr>statusCode := sc, wroteHeader := True, header := h2, chunked := \<not> noBody sc,
              body := Some (b\<lparr>B := []\<rparr>)\<rparr>,
           snd (Writer_Flush
             ((if B b = [] then id else write_chunk (B b))
                (snd (WriteBinary (status_line env r sc
                   @ (if noBody sc then [] else ''Transfer-Encoding: chunked'' @ CRLF)
                   @ header_lines h2 @ CRLF) w)))))"
    by blast
  let ?rw' = "rw\<lparr>statusCode := sc, wroteHeader := True, header := h2, chunked := \<not> noBody sc,
              body := Some (b\<lparr>B := []\<rparr>)\<rparr>"
  let ?w1 = "snd (WriteBinary (status_line env r sc
                   @ (if noBody sc then [] else ''Transfer-Encoding: chunked'' @ CRLF)
                   @ header_lines h2 @ CRLF) w)"
  let ?w' = "snd (Writer_Flush ((if B b = [] then id else write_chunk (B b)) ?w1))"
  have w1: "\<not> write_fails ?w1" "flush_fails ?w1 = flush_fails w"
    "written ?w1 = written w @ status_line env r sc
                   @ (if noBody sc then [] else ''Transfer-Encoding: chunked'' @ CRLF)
                   @ header_lines h2 @ CRLF"
    using assms(7) by (simp_all add: fails_WriteBinary written_WriteBinary)
  have wf: "\<not> write_fails ?w'"
    using w1(1) by (simp add: fails_Writer_Flush fails_write_chunk)
  have wr: "written ?w' = written ?w1 @ (if B b = [] then [] else chunk_frame (B b))"
    using w1(1) by (simp add: written_Writer_Flush written_write_chunk)
  have pe: "\<not> flush_fails w \<longrightarrow> pending ?w' = []"
    using w1(2) by (simp add: pending_Writer_Flush fails_write_chunk)
  have later: "\<exists>rw2 w2. ServeHTTP env [OpWrite p, OpFlush] ?rw' ?w' = Some (rw2, w2)
         \<and> written w2 = written ?w' @ (if p = [] then [] else chunk_frame p)
         \<and> body rw2 = Some (b\<lparr>B := []\<rparr>)"
    by (rule Write_then_Flush_committed[where c = c and cn = cn])
       (use assms wf in simp_all)
  have later': "\<exists>rw2 w2. ServeHTTP env [OpWrite p, OpFlush] ?rw' ?w' = Some (rw2, w2)
         \<and> written w2 = written ?w' @ (if p = [] then [] else chunk_frame p)"
    using later by blast
  show ?thesis
    using f False assms(1) wr w1(3) pe later'
    by (cases "noBody sc") (simp_all del: ServeHTTP.simps)
qed

theorem Flush_emits_chunk_witness:
  "\<exists>rw' w'. Flush env0 (rw0\<lparr>statusCode := 200, body := Some \<lparr>buf_id = 0, B = ''part1''\<rparr>\<rparr>) w0
               = Some (rw', w')
     \<and> wroteHeader rw' \<and> \<not> hijacked rw' \<and> body rw' = Some \<lparr>buf_id = 0, B = []\<rparr>
     \<and> chunked rw'
     \<and> written w' = status_line env0 req0 200 @ ''Transfer-Encoding: chunked'' @ CRLF
          @ header_lines (header rw') @ CRLF @ chunk_frame ''part1''
     \<and> pending w' = []
     \<and> (\<exists>rw2 w2. ServeHTTP env0 [OpWrite ''part2'', OpFlush] rw' w' = Some (rw2, w2)
           \<and> written w2 = written w' @ chunk_frame ''part2'')"
proof -
  let ?rw = "rw0\<lparr>statusCode := 200, body := Some \<lparr>buf_id = 0, B = ''part1''\<rparr>\<rparr>"
  have hyps: "\<not> hijacked ?rw" "wroteHeader ?rw \<or> \<not> chunked ?rw" "ctx ?rw = Some ctx0"
    "conn ctx0 = Some 0" "body ?rw = Some \<lparr>buf_id = 0, B = ''part1''\<rparr>" "req ?rw = Some req0"
    "\<not> write_fails w0" "200 = (if statusCode ?rw = 0 then 200 else statusCode ?rw)"
    by (simp_all add: rw0_fields ctx0_def w0_def)
  have more: "\<not> wroteHeader ?rw" "\<not> noBody 200" "\<not> flush_fails w0" "written w0 = []"
    by (simp_all add: rw0_fields noBody_def w0_def written_def)
  from Flush_emits_chunk[OF hyps, of env0 "''part2''"] more
  show ?thesis by (simp del: ServeHTTP.simps, blast)
qed

section \<open>A handler that panics\<close>




section \<open>Keep-alive\<close>

text \<open>
  Claim C8: when a request is parsed and \<open>handleRequest\<close> returns it without error and
  without hijack, then both pooled objects have been released and the loop ends or goes
  on according to the request alone. The writer is back at the head of its pool with its
  context, request and body references cleared and its header map empty, and the body
  buffer taken for the cycle is checked in once. The request context, which was bound
  to the transport \<open>cn\<close> with its reader on \<open>cn\<close>, goes back to its pool with
  connection and parent cleared and the reader kept. The loop then ends, \<open>ServeConn\<close>
  returning nil, exactly when the request has \<open>Close\<close> set or carries
  \<open>Connection: close\<close>; otherwise its result is that of the loop on what arrives next on
  \<open>cn\<close>, from the state just described, where the next pass takes the released context
  back out of the pool, bound to \<open>cn\<close> again. (Ending the loop is all \<open>ServeConn\<close>
  does to the connection; closing the socket is the transport's part.)
\<close>

theorem ServeConn_close_or_continue:
  assumes "handleRequest env (Inr (r, h)) (fst (NewRequestContext cn px (ctxPool W)))
             (W\<lparr>ctxPool := snd (NewRequestContext cn px (ctxPool W))\<rparr>)
           = Some ((ro, False, None), c1, W1)"
  shows "ro = Some r
       \<and> c1 = \<lparr>conn = Some cn, parent = Some px, reader = Some cn\<rparr>
       \<and> (\<exists>x. rwPool W1 = x # tl (rwPool W)
              \<and> ctx x = None \<and> req x = None \<and> body x = None \<and> header x = [])
       \<and> free (bufpool W1) = buf_id (fst (bytebufferpool_Get (bufpool W)))
                                 # free (snd (bytebufferpool_Get (bufpool W)))
       \<and> ServeConn env cn px (InRequest r h s) W =
           (if Close r \<or> Header_Get (Header r) ''Connection'' = ''close''
            then Some (Returned None,
                   W1\<lparr>ctxPool := \<lparr>conn = None, parent = None, reader = Some cn\<rparr> # tl (ctxPool W)\<rparr>)
            else ServeConn env cn px s
                   (W1\<lparr>ctxPool := \<lparr>conn = None, parent = None, reader = Some cn\<rparr> # tl (ctxPool W)\<rparr>))
       \<and> NewRequestContext cn px
           (ctxPool (W1\<lparr>ctxPool := \<lparr>conn = None, parent = None, reader = Some cn\<rparr> # tl (ctxPool W)\<rparr>))
         = (\<lparr>conn = Some cn, parent = Some px, reader = Some cn\<rparr>, tl (ctxPool W))"
proof -
  let ?c = "fst (NewRequestContext cn px (ctxPool W))"
  let ?W = "W\<lparr>ctxPool := snd (NewRequestContext cn px (ctxPool W))\<rparr>"
  have bound: "GetReader ?c = \<lparr>conn = Some cn, parent = Some px, reader = Some cn\<rparr>"
    and rest: "snd (NewRequestContext cn px (ctxPool W)) = tl (ctxPool W)"
    using NewRequestContext_bound[of cn px "ctxPool W"] by simp_all
  from handleRequest_done[OF assms]
  have ro: "ro = Some r" and c1: "c1 = GetReader ?c" and cp: "ctxPool W1 = ctxPool ?W"
    and rp: "\<exists>x. rwPool W1 = x # tl (rwPool ?W)
              \<and> ctx x = None \<and> req x = None \<and> body x = None \<and> header x = []"
    and bp: "free (bufpool W1) = buf_id (fst (bytebufferpool_Get (bufpool ?W)))
                                 # free (snd (bytebufferpool_Get (bufpool ?W)))"
    by blast+
  have c1': "c1 = \<lparr>conn = Some cn, parent = Some px, reader = Some cn\<rparr>"
    using c1 bound by simp
  have released: "RequestContext_Release c1 (ctxPool W1)
                  = \<lparr>conn = None, parent = None, reader = Some cn\<rparr> # tl (ctxPool W)"
    using c1' cp rest by (simp add: RequestContext_Release_def)
  obtain c cp' where nc: "NewRequestContext cn px (ctxPool W) = (c, cp')"
    by (cases "NewRequestContext cn px (ctxPool W)")
  have loop: "ServeConn env cn px (InRequest r h s) W =
           (if Close r \<or> Header_Get (Header r) ''Connection'' = ''close''
            then Some (Returned None,
                   W1\<lparr>ctxPool := \<lparr>conn = None, parent = None, reader = Some cn\<rparr> # tl (ctxPool W)\<rparr>)
            else ServeConn env cn px s
                   (W1\<lparr>ctxPool := \<lparr>conn = None, parent = None, reader = Some cn\<rparr> # tl (ctxPool W)\<rparr>))"
    using assms ro nc released by (simp add: ServeConn_pass_def)
  have again: "NewRequestContext cn px
           (ctxPool (W1\<lparr>ctxPool := \<lparr>conn = None, parent = None, reader = Some cn\<rparr> # tl (ctxPool W)\<rparr>))
         = (\<lparr>conn = Some cn, parent = Some px, reader = Some cn\<rparr>, tl (ctxPool W))"
    by (simp add: NewRequestContext_def)
  from ro c1' rp bp loop again show ?thesis by simp
qed

theorem ServeConn_close_or_continue_witness:
  "handleRequest env0 (Inr (req0, hello_handler))
       (fst (NewRequestContext 0 0 (ctxPool W0)))
       (W0\<lparr>ctxPool := snd (NewRequestContext 0 0 (ctxPool W0))\<rparr>)
     = Some ((Some req0, False, None), \<lparr>conn = Some 0, parent = Some 0, reader = Some 0\<rparr>,
             served hello_response [])
   \<and> \<not> (Close req0 \<or> Header_Get (Header req0) ''Connection'' = ''close'')
   \<and> ServeConn env0 0 0 (InRequest req0 hello_handler (InRequest req_close hello_handler InEOF)) W0
     = ServeConn env0 0 0 (InRequest req_close hello_handler InEOF)
         (served hello_response [\<lparr>conn = None, parent = None, reader = Some 0\<rparr>])
   \<and> ServeConn env0 0 0 (InRequest req0 hello_handler (InRequest req_close hello_handler InEOF)) W0
     = Some (Returned None,
         served (hello_response @ hello_response) [\<lparr>conn = None, parent = None, reader = Some 0\<rparr>])
   \<and> ServeConn env0 0 0 (InRequest req0 hello_handler InEOF) W0
     = Some (Returned (Some errEOF),
         served hello_response [\<lparr>conn = None, parent = None, reader = Some 0\<rparr>])"
proof -
  have hx: "handleRequest env0 (Inr (req0, hello_handler))
       (fst (NewRequestContext 0 0 (ctxPool W0)))
       (W0\<lparr>ctxPool := snd (NewRequestContext 0 0 (ctxPool W0))\<rparr>)
     = Some ((Some req0, False, None), \<lparr>conn = Some 0, parent = Some 0, reader = Some 0\<rparr>,
             served hello_response [])"
    by code_simp
  have keep: "\<not> (Close req0 \<or> Header_Get (Header req0) ''Connection'' = ''close'')"
    by (simp add: req0_def Header_Get_def)
  have state: "(served hello_response [])
                 \<lparr>ctxPool := \<lparr>conn = None, parent = None, reader = Some 0\<rparr> # tl (ctxPool W0)\<rparr>
               = served hello_response [\<lparr>conn = None, parent = None, reader = Some 0\<rparr>]"
    by (simp add: served_def W0_def)
  from ServeConn_close_or_continue[OF hx, of "InRequest req_close hello_handler InEOF"] keep
  have step: "ServeConn env0 0 0 (InRequest req0 hello_handler (InRequest req_close hello_handler InEOF)) W0
     = ServeConn env0 0 0 (InRequest req_close hello_handler InEOF)
         (served hello_response [\<lparr>conn = None, parent = None, reader = Some 0\<rparr>])"
    unfolding state by (simp del: ServeConn.simps)
  have both: "ServeConn env0 0 0 (InRequest req0 hello_handler (InRequest req_close hello_handler InEOF)) W0
     = Some (Returned None,
         served (hello_response @ hello_response) [\<lparr>conn = None, parent = None, reader = Some 0\<rparr>])"
    by code_simp
  have eof: "ServeConn env0 0 0 (InRequest req0 hello_handler InEOF) W0
     = Some (Returned (Some errEOF),
         served hello_response [\<lparr>conn = None, parent = None, reader = Some 0\<rparr>])"
    by code_simp
  from hx keep step both eof show ?thesis by (simp del: ServeConn.simps)
qed

end
